theory Spec2Isabelle
  imports Main
begin

section \<open>JavaScript values\<close>

text \<open>
  Bodies, interpolated values and query parameters are JavaScript values.  Numbers are
  restricted to integers (no floating point, no NaN); objects are association lists
  from property names to values.
\<close>

datatype js =
    JUndefined
  | JNull
  | JBool bool
  | JNum int
  | JStr string
  | JArr "js list"
  | JObj "(string \<times> js) list"

text \<open>Truthiness, as used by \<open>!x\<close>, \<open>x && y\<close> and \<open>x || y\<close>.\<close>

fun truthy :: "js \<Rightarrow> bool" where
  "truthy JUndefined = False"
| "truthy JNull = False"
| "truthy (JBool b) = b"
| "truthy (JNum n) = (n \<noteq> 0)"
| "truthy (JStr s) = (s \<noteq> [])"
| "truthy (JArr xs) = True"
| "truthy (JObj kvs) = True"

text \<open>\<open>typeof v === "string"\<close> and \<open>typeof v === "object"\<close>.\<close>

fun typeof_string :: "js \<Rightarrow> bool" where
  "typeof_string (JStr s) = True"
| "typeof_string v = False"

fun typeof_object :: "js \<Rightarrow> bool" where
  "typeof_object JNull = True"
| "typeof_object (JArr xs) = True"
| "typeof_object (JObj kvs) = True"
| "typeof_object v = False"

text \<open>An optional string read in a boolean position: undefined and \<open>""\<close> are falsy.\<close>

fun truthy_str :: "string option \<Rightarrow> bool" where
  "truthy_str None = False"
| "truthy_str (Some s) = (s \<noteq> [])"

text \<open>Decimal rendering of numbers, as string concatenation and template literals do.\<close>

definition digit_char :: "nat \<Rightarrow> char" where
  "digit_char d =
     (if d = 0 then CHR ''0'' else if d = 1 then CHR ''1'' else if d = 2 then CHR ''2''
      else if d = 3 then CHR ''3'' else if d = 4 then CHR ''4'' else if d = 5 then CHR ''5''
      else if d = 6 then CHR ''6'' else if d = 7 then CHR ''7'' else if d = 8 then CHR ''8''
      else CHR ''9'')"

fun decimal :: "nat \<Rightarrow> string" where
  "decimal n = (if n < 10 then [digit_char n] else decimal (n div 10) @ [digit_char (n mod 10)])"

declare decimal.simps [simp del]

definition decimal_int :: "int \<Rightarrow> string" where
  "decimal_int i = (if i < 0 then CHR ''-'' # decimal (nat (- i)) else decimal (nat i))"

text \<open>
  \<open>String(v)\<close>, which is also what \<open>"..." + v\<close> appends: arrays join their elements
  with commas (null and undefined elements as the empty string), plain objects render
  as \<open>[object Object]\<close>.
\<close>

fun join_comma :: "string list \<Rightarrow> string" where
  "join_comma [] = []"
| "join_comma [s] = s"
| "join_comma (s # t # ss) = s @ '','' @ join_comma (t # ss)"

fun String_js :: "js \<Rightarrow> string"
  and element_js :: "js \<Rightarrow> string" where
  "String_js JUndefined = ''undefined''"
| "String_js JNull = ''null''"
| "String_js (JBool b) = (if b then ''true'' else ''false'')"
| "String_js (JNum n) = decimal_int n"
| "String_js (JStr s) = s"
| "String_js (JArr xs) = join_comma (map element_js xs)"
| "String_js (JObj kvs) = ''[object Object]''"
| "element_js v = (case v of JUndefined \<Rightarrow> [] | JNull \<Rightarrow> [] | _ \<Rightarrow> String_js v)"

section \<open>Thrown values\<close>

text \<open>
  Everything the code can throw or reject with is an error object: a message, and for
  the HTTP library's errors the response and the request configuration they belong to.
\<close>

record AxiosRequestConfig =
  ident :: nat
  url :: "string option"
  req_method :: "string option"
  req_headers :: "(string \<times> string) list"
  req_data :: js
  isGraphQL :: "bool option"
  startTime_tag :: "int option"
  isGraphQL_tag :: "bool option"

record AxiosResponse =
  res_data :: js
  status :: nat
  res_headers :: "(string \<times> string) list"
  res_config :: AxiosRequestConfig

record Thrown =
  message :: "string option"
  response :: "AxiosResponse option"
  config :: "AxiosRequestConfig option"

definition Error :: "string \<Rightarrow> Thrown" where
  "Error msg = \<lparr> message = Some msg, response = None, config = None \<rparr>"

section \<open>External collaborators\<close>

text \<open>
  The JSON built-ins, the AES primitive of the crypto library and the URL query encoder are
  black boxes: they are parameters of the model.  \<open>JSON.parse\<close> throws on text that is not
  JSON; the library's decryption renders the decrypted bytes as UTF-8 and throws when they
  are malformed.  \<open>Inl\<close> carries the message of the error thrown.
\<close>

record Platform =
  JSON_stringify :: "js \<Rightarrow> string"
  JSON_parse :: "string \<Rightarrow> string + js"
  AES_encrypt :: "string \<Rightarrow> string \<Rightarrow> string"
  AES_decrypt :: "string \<Rightarrow> string \<Rightarrow> string + string"
  URLSearchParams_toString :: "(string \<times> string) list \<Rightarrow> string"

section \<open>config.ts\<close>

datatype Environment = Env_PROD | Env_UAT | Env_DEV

text \<open>
  A property of an object literal is absent, present with the value undefined, or present
  with a value.  Reading an absent or undefined property gives undefined (\<open>None\<close>).
\<close>

datatype 'a slot = Absent | Undefined | Value 'a

fun rd :: "'a slot \<Rightarrow> 'a option" where
  "rd Absent = None"
| "rd Undefined = None"
| "rd (Value v) = Some v"

record EncryptionConfig =
  enabled :: bool
  secretKey :: "string option"
  useRemoteKeys :: "bool option"

record MetricsConfig =
  metrics_enabled :: bool
  logToConsole :: "bool option"

record GraphqlConfig =
  endpoint :: "string option"

text \<open>
  \<open>NetworkConfig\<close> and \<open>Partial<NetworkConfig>\<close> share this record: every top-level key
  may be absent.
\<close>

record NetworkConfig =
  baseUrl :: "string slot"
  timeout :: "int slot"
  headers :: "(string \<times> string) list slot"
  environment :: "Environment slot"
  encryption :: "EncryptionConfig slot"
  metrics :: "MetricsConfig slot"
  graphql :: "GraphqlConfig slot"

text \<open>The initial value of the module-level \<open>globalConfig\<close>.\<close>

definition initial_globalConfig :: NetworkConfig where
  "initial_globalConfig =
     \<lparr> baseUrl = Value [],
       timeout = Value 10000,
       headers = Absent,
       environment = Value Env_DEV,
       encryption = Value \<lparr> enabled = False, secretKey = None, useRemoteKeys = None \<rparr>,
       metrics = Value \<lparr> metrics_enabled = True, logToConsole = Some True \<rparr>,
       graphql = Absent \<rparr>"

text \<open>One key of \<open>{...a, ...b}\<close>: the later object wins wherever it has the key.\<close>

fun spread :: "'a slot \<Rightarrow> 'a slot \<Rightarrow> 'a slot" where
  "spread a Absent = a"
| "spread a b = b"

text \<open>\<open>setNetworkConfig(config)\<close>: the new value of \<open>globalConfig\<close>.\<close>

definition setNetworkConfig :: "NetworkConfig \<Rightarrow> NetworkConfig \<Rightarrow> NetworkConfig" where
  "setNetworkConfig cfg g =
     \<lparr> baseUrl = spread (baseUrl g) (baseUrl cfg),
       timeout = spread (timeout g) (timeout cfg),
       headers = spread (headers g) (headers cfg),
       environment = spread (environment g) (environment cfg),
       encryption = spread (encryption g) (encryption cfg),
       metrics = spread (metrics g) (metrics cfg),
       graphql = spread (graphql g) (graphql cfg) \<rparr>"

text \<open>A uniform view of the top-level keys, to speak about "every key".\<close>

datatype config_key =
  K_baseUrl | K_timeout | K_headers | K_environment | K_encryption | K_metrics | K_graphql

datatype config_value =
    V_string string
  | V_number int
  | V_headers "(string \<times> string) list"
  | V_environment Environment
  | V_encryption EncryptionConfig
  | V_metrics MetricsConfig
  | V_graphql GraphqlConfig

fun entry :: "NetworkConfig \<Rightarrow> config_key \<Rightarrow> config_value slot" where
  "entry c K_baseUrl = (case baseUrl c of Absent \<Rightarrow> Absent | Undefined \<Rightarrow> Undefined | Value v \<Rightarrow> Value (V_string v))"
| "entry c K_timeout = (case timeout c of Absent \<Rightarrow> Absent | Undefined \<Rightarrow> Undefined | Value v \<Rightarrow> Value (V_number v))"
| "entry c K_headers = (case headers c of Absent \<Rightarrow> Absent | Undefined \<Rightarrow> Undefined | Value v \<Rightarrow> Value (V_headers v))"
| "entry c K_environment = (case environment c of Absent \<Rightarrow> Absent | Undefined \<Rightarrow> Undefined | Value v \<Rightarrow> Value (V_environment v))"
| "entry c K_encryption = (case encryption c of Absent \<Rightarrow> Absent | Undefined \<Rightarrow> Undefined | Value v \<Rightarrow> Value (V_encryption v))"
| "entry c K_metrics = (case metrics c of Absent \<Rightarrow> Absent | Undefined \<Rightarrow> Undefined | Value v \<Rightarrow> Value (V_metrics v))"
| "entry c K_graphql = (case graphql c of Absent \<Rightarrow> Absent | Undefined \<Rightarrow> Undefined | Value v \<Rightarrow> Value (V_graphql v))"

section \<open>encryption.ts\<close>

text \<open>
  Both helpers read the module-level \<open>globalConfig\<close>, passed here as \<open>g\<close>; neither looks
  at the environment.
\<close>

definition encryption_off :: "NetworkConfig \<Rightarrow> bool" where
  "encryption_off g =
     (case rd (encryption g) of
        None \<Rightarrow> True
      | Some e \<Rightarrow> \<not> enabled e \<or> \<not> truthy_str (secretKey e))"

definition configured_key :: "NetworkConfig \<Rightarrow> string" where
  "configured_key g =
     (case rd (encryption g) of
        None \<Rightarrow> []
      | Some e \<Rightarrow> (case secretKey e of None \<Rightarrow> [] | Some k \<Rightarrow> k))"

definition encryptData :: "Platform \<Rightarrow> NetworkConfig \<Rightarrow> js \<Rightarrow> string" where
  "encryptData px g d =
     (if encryption_off g then JSON_stringify px d
      else AES_encrypt px (JSON_stringify px d) (configured_key g))"

definition decryptData :: "Platform \<Rightarrow> NetworkConfig \<Rightarrow> string \<Rightarrow> string + string" where
  "decryptData px g encryptedData =
     (if encryption_off g then Inr encryptedData
      else AES_decrypt px encryptedData (configured_key g))"

section \<open>The world around a call\<close>

text \<open>
  What a call can change: the module-level \<open>globalConfig\<close>, the \<open>requestKeys\<close>
  side table (keyed by the identity of the request configuration object), the console,
  the navigations requested through \<open>window.location.assign\<close>, and the requests handed
  to the transport.
\<close>

record MetricData =
  m_url :: string
  m_method :: string
  m_startTime :: int
  m_endTime :: int
  m_duration :: int
  m_status :: "nat option"
  m_success :: bool
  m_encrypted :: bool
  m_graphql :: bool
  m_requestSize :: "nat option"
  m_responseSize :: "nat option"

datatype console_entry =
    Console_log string MetricData string
  | Console_error string Thrown

record World =
  globalConfig :: NetworkConfig
  requestKeys :: "nat \<Rightarrow> (string \<times> string) option"
  console :: "console_entry list"
  location_assign :: "string list"
  sent :: "AxiosRequestConfig list"

text \<open>
  What one call reads from its surroundings: the clock at the request and at the response,
  the timestamp of the metric, the stored access token (the read throws where there is no
  session storage), the freshly generated key and IV, the correlation id, the identity of
  the request configuration object the HTTP library creates, and the transport's answer to
  the request sent.  The answer is an input of the model: what holds for every answer
  holds for every transport.  A fulfilled answer is a response whose status the library
  accepted; a rejected one is the library's error, carrying the response when the server
  sent one.
\<close>

record CallEnv =
  Date_now_request :: int
  Date_now_response :: int
  toISOString :: string
  sessionStorage_getItem :: "string + string option"
  generated_keys :: "string \<times> string"
  correlation_id :: string
  fresh_ident :: nat
  adapter_result :: "Thrown + AxiosResponse"

definition console_error :: "string \<Rightarrow> Thrown \<Rightarrow> World \<Rightarrow> World" where
  "console_error label e w = w\<lparr> console := console w @ [Console_error label e] \<rparr>"

definition window_location_assign :: "string \<Rightarrow> World \<Rightarrow> World" where
  "window_location_assign path w = w\<lparr> location_assign := location_assign w @ [path] \<rparr>"

section \<open>metrics.ts\<close>

definition recordMetrics :: "CallEnv \<Rightarrow> MetricData \<Rightarrow> World \<Rightarrow> World" where
  "recordMetrics env d w =
     (case rd (metrics (globalConfig w)) of
        None \<Rightarrow> w
      | Some m \<Rightarrow>
          if \<not> metrics_enabled m then w
          else if logToConsole m = Some True
            then w\<lparr> console := console w @ [Console_log ''[WebLattice Metrics]'' d (toISOString env)] \<rparr>
            else w)"

section \<open>WebLattice.ts\<close>

record ApiRequestConfig =
  rc_baseUrl :: "string option"
  queryParams :: "(string \<times> js) list option"
  rc_isGraphQL :: "bool option"
  rc_headers :: "(string \<times> string) list option"
  rc_timeout :: "int option"

record ApiResponse =
  success :: bool
  data :: "js option"
  error :: "string option"
  statusCode :: "nat option"
  errorCode :: "string option"
  api_headers :: "(string \<times> string) list option"

record WebLattice =
  this_config :: NetworkConfig
  client_baseURL :: "string option"
  client_timeout :: int
  client_headers :: "(string \<times> string) list"

definition isProd :: "NetworkConfig \<Rightarrow> bool" where
  "isProd c =
     (rd (environment c) = Some Env_PROD
      \<and> (case rd (encryption c) of None \<Rightarrow> False | Some e \<Rightarrow> enabled e))"

text \<open>\<open>String.prototype.toUpperCase\<close> on ASCII letters; other characters are kept.\<close>

definition upper_char :: "char \<Rightarrow> char" where
  "upper_char c =
     (let n = (of_char c :: nat) in if 97 \<le> n \<and> n \<le> 122 then char_of (n - 32) else c)"

definition toUpperCase :: "string \<Rightarrow> string" where
  "toUpperCase s = map upper_char s"

definition getRequestMetadata :: "AxiosRequestConfig option \<Rightarrow> string \<times> string" where
  "getRequestMetadata c =
     ((case Option.bind c url of None \<Rightarrow> [] | Some u \<Rightarrow> u),
      (case Option.bind c req_method of
         None \<Rightarrow> ''UNKNOWN''
       | Some m \<Rightarrow> if toUpperCase m = [] then ''UNKNOWN'' else toUpperCase m))"

definition getPublicKeyDetails :: "NetworkConfig \<Rightarrow> string \<times> string" where
  "getPublicKeyDetails g =
     (if Option.bind (rd (encryption g)) useRemoteKeys = Some True
      then (''remote-key-value'', ''remote-key-id'')
      else (configured_key g, ''local-key-id''))"

text \<open>\<open>headers.set(key, value)\<close>.\<close>

fun hset :: "string \<Rightarrow> string \<Rightarrow> (string \<times> string) list \<Rightarrow> (string \<times> string) list" where
  "hset k v [] = [(k, v)]"
| "hset k v ((k', v') # hs) = (if k' = k then (k, v) # hs else (k', v') # hset k v hs)"

definition copy_headers :: "(string \<times> string) list \<Rightarrow> (string \<times> string) list" where
  "copy_headers hs = foldl (\<lambda>acc (k, v). hset k v acc) [] hs"

definition handleProductionSecurity ::
  "Platform \<Rightarrow> CallEnv \<Rightarrow> World \<Rightarrow> AxiosRequestConfig
   \<Rightarrow> (string \<times> string) \<times> AxiosRequestConfig \<times> World" where
  "handleProductionSecurity px env w c =
     (generated_keys env,
      (if truthy (req_data c) \<and> typeof_object (req_data c)
       then c\<lparr> req_data := JStr (encryptData px (globalConfig w) (req_data c)) \<rparr>
       else c),
      w\<lparr> requestKeys := (requestKeys w)(ident c \<mapsto> generated_keys env) \<rparr>)"

definition updateHeadersWithEncryption ::
  "AxiosRequestConfig \<Rightarrow> string \<Rightarrow> string \<Rightarrow> string \<Rightarrow> AxiosRequestConfig" where
  "updateHeadersWithEncryption c aesKey iv publicKey_id =
     c\<lparr> req_headers :=
          (let h = hset ''x-encryption-iv'' iv
                     (hset ''x-encryption-key'' aesKey
                       (hset ''x-encryption'' ''true'' (copy_headers (req_headers c))))
           in if publicKey_id \<noteq> [] then hset ''x-public-key-id'' publicKey_id h else h) \<rparr>"

definition addCommonHeaders :: "CallEnv \<Rightarrow> AxiosRequestConfig \<Rightarrow> AxiosRequestConfig" where
  "addCommonHeaders env c =
     c\<lparr> req_headers :=
          hset ''x-app-platform'' ''web''
            (hset ''x-client-version'' ''1.0.0''
              (hset ''x-correlation-id'' (correlation_id env) (copy_headers (req_headers c)))) \<rparr>"

text \<open>The constructor: it keeps the configuration and merges it into \<open>globalConfig\<close>.\<close>

definition new_WebLattice :: "NetworkConfig \<Rightarrow> World \<Rightarrow> WebLattice \<times> World" where
  "new_WebLattice c w =
     (\<lparr> this_config = c,
        client_baseURL = rd (baseUrl c),
        client_timeout = (case rd (timeout c) of None \<Rightarrow> 10000 | Some t \<Rightarrow> if t = 0 then 10000 else t),
        client_headers =
          hset ''Content-Type'' ''application/json''
            (case rd (headers c) of None \<Rightarrow> [] | Some hs \<Rightarrow> copy_headers hs) \<rparr>,
      w\<lparr> globalConfig := setNetworkConfig c (globalConfig w) \<rparr>)"

text \<open>The request interceptor.\<close>

definition request_interceptor ::
  "WebLattice \<Rightarrow> Platform \<Rightarrow> CallEnv \<Rightarrow> World \<Rightarrow> AxiosRequestConfig
   \<Rightarrow> (Thrown + AxiosRequestConfig) \<times> World" where
  "request_interceptor this px env w c =
     (case sessionStorage_getItem env of
        Inl msg \<Rightarrow>
          (Inl (Error msg), console_error ''Error in request interceptor:'' (Error msg) w)
      | Inr accessToken \<Rightarrow>
          (let (c1, w1) =
                 (if isProd (this_config this)
                  then (case handleProductionSecurity px env w c of
                          ((aesKey, iv), c', w') \<Rightarrow>
                            (updateHeadersWithEncryption c' aesKey iv
                               (snd (getPublicKeyDetails (globalConfig w))), w'))
                  else (c, w));
               c2 = (case accessToken of
                       None \<Rightarrow> c1
                     | Some t \<Rightarrow>
                         if t = [] then c1
                         else c1\<lparr> req_headers := hset ''Authorization'' (''Bearer '' @ t) (req_headers c1) \<rparr>);
               c3 = addCommonHeaders env c2
           in (Inr (c3\<lparr> startTime_tag := Some (Date_now_request env),
                         isGraphQL_tag := Some (isGraphQL c3 = Some True) \<rparr>),
               w1)))"

text \<open>\<open>x || fallback\<close> on an optional number: undefined and 0 are falsy.\<close>

definition or_time :: "int option \<Rightarrow> int \<Rightarrow> int" where
  "or_time x fallback = (case x of None \<Rightarrow> fallback | Some t \<Rightarrow> if t = 0 then fallback else t)"

definition sized :: "Platform \<Rightarrow> js \<Rightarrow> nat" where
  "sized px v = length (JSON_stringify px (if truthy v then v else JObj []))"

definition success_metric :: "WebLattice \<Rightarrow> Platform \<Rightarrow> CallEnv \<Rightarrow> AxiosResponse \<Rightarrow> MetricData" where
  "success_metric this px env r =
     \<lparr> m_url = fst (getRequestMetadata (Some (res_config r))),
       m_method = snd (getRequestMetadata (Some (res_config r))),
       m_startTime = or_time (startTime_tag (res_config r)) (Date_now_response env),
       m_endTime = Date_now_response env,
       m_duration = Date_now_response env - or_time (startTime_tag (res_config r)) (Date_now_response env),
       m_status = Some (status r),
       m_success = True,
       m_encrypted = isProd (this_config this),
       m_graphql = (isGraphQL_tag (res_config r) = Some True),
       m_requestSize = Some (sized px (req_data (res_config r))),
       m_responseSize = Some (sized px (res_data r)) \<rparr>"

text \<open>The response interceptor, success handler.\<close>

definition response_fulfilled ::
  "WebLattice \<Rightarrow> Platform \<Rightarrow> CallEnv \<Rightarrow> World \<Rightarrow> AxiosResponse
   \<Rightarrow> (Thrown + AxiosResponse) \<times> World" where
  "response_fulfilled this px env w r =
     (if isProd (this_config this) \<and> requestKeys w (ident (res_config r)) \<noteq> None
         \<and> truthy (res_data r) \<and> typeof_string (res_data r)
      then (case decryptData px (globalConfig w) (String_js (res_data r)) of
              Inl msg \<Rightarrow>
                (Inl (Error msg), console_error ''Error in response decryption:'' (Error msg) w)
            | Inr decryptedData \<Rightarrow>
                (case JSON_parse px decryptedData of
                   Inl msg \<Rightarrow>
                     (Inl (Error msg), console_error ''Error parsing decrypted JSON:'' (Error msg) w)
                 | Inr v \<Rightarrow>
                     (Inr (r\<lparr> res_data := v \<rparr>),
                      recordMetrics env (success_metric this px env (r\<lparr> res_data := v \<rparr>)) w)))
      else (Inr r, recordMetrics env (success_metric this px env r) w))"

definition failure_metric :: "WebLattice \<Rightarrow> CallEnv \<Rightarrow> Thrown \<Rightarrow> MetricData" where
  "failure_metric this env e =
     \<lparr> m_url = fst (getRequestMetadata (config e)),
       m_method = snd (getRequestMetadata (config e)),
       m_startTime = or_time (Option.bind (config e) startTime_tag) (Date_now_response env),
       m_endTime = Date_now_response env,
       m_duration =
         Date_now_response env - or_time (Option.bind (config e) startTime_tag) (Date_now_response env),
       m_status = map_option status (response e),
       m_success = False,
       m_encrypted = isProd (this_config this),
       m_graphql = (Option.bind (config e) isGraphQL_tag = Some True),
       m_requestSize = None,
       m_responseSize = None \<rparr>"

definition redirect_on_status :: "nat option \<Rightarrow> World \<Rightarrow> World" where
  "redirect_on_status st w =
     (if st = Some 401 then window_location_assign ''/enter-email'' w
      else (case st of
              None \<Rightarrow> w
            | Some s \<Rightarrow>
                if s \<noteq> 0 \<and> 500 \<le> s \<and> s < 600 then window_location_assign ''/generic-error'' w
                else w))"

text \<open>
  The response interceptor, error handler.  It always rejects with the error it was given,
  whose response body is replaced only when it decrypts and parses.
\<close>

definition response_rejected ::
  "WebLattice \<Rightarrow> Platform \<Rightarrow> CallEnv \<Rightarrow> World \<Rightarrow> Thrown \<Rightarrow> Thrown \<times> World" where
  "response_rejected this px env w e =
     (case (response e, config e) of
        (Some r, Some c) \<Rightarrow>
          if isProd (this_config this) \<and> truthy (res_data r)
             \<and> requestKeys w (ident c) \<noteq> None \<and> typeof_string (res_data r)
          then (case decryptData px (globalConfig w) (String_js (res_data r)) of
                  Inl msg \<Rightarrow>
                    (e, console_error ''Error decrypting error response data:'' (Error msg) w)
                | Inr decryptedData \<Rightarrow>
                    (case JSON_parse px decryptedData of
                       Inl msg \<Rightarrow>
                         (e, redirect_on_status (Some (status r))
                               (recordMetrics env (failure_metric this env e)
                                 (console_error ''Error parsing decrypted error JSON:'' (Error msg) w)))
                     | Inr v \<Rightarrow>
                         (e\<lparr> response := Some (r\<lparr> res_data := v \<rparr>) \<rparr>,
                          redirect_on_status (Some (status r))
                            (recordMetrics env
                              (failure_metric this env (e\<lparr> response := Some (r\<lparr> res_data := v \<rparr>) \<rparr>)) w))))
          else (e, redirect_on_status (Some (status r)) (recordMetrics env (failure_metric this env e) w))
      | _ \<Rightarrow>
          (e, redirect_on_status (map_option status (response e))
                (recordMetrics env (failure_metric this env e) w)))"

text \<open>
  The instance's \<open>transformRequest\<close>, applied by the HTTP library when it dispatches the
  request (\<open>JSON.stringify(undefined)\<close> is undefined).
\<close>

definition transformRequest :: "WebLattice \<Rightarrow> Platform \<Rightarrow> js \<Rightarrow> js" where
  "transformRequest this px d =
     (if isProd (this_config this)
      then (if d = JUndefined then JUndefined else JStr (JSON_stringify px d))
      else d)"

text \<open>
  One request through the client instance, as the HTTP library chains it: the request
  interceptor, the dispatch to the transport, then the response interceptor.  A rejection
  by the request interceptor skips the dispatch and enters the response interceptor's
  error handler; a rejection by the success handler goes to the caller.
\<close>

definition client_request ::
  "WebLattice \<Rightarrow> Platform \<Rightarrow> CallEnv \<Rightarrow> World \<Rightarrow> AxiosRequestConfig
   \<Rightarrow> (Thrown + AxiosResponse) \<times> World" where
  "client_request this px env w c =
     (case request_interceptor this px env w c of
        (Inl e, w1) \<Rightarrow>
          (Inl (fst (response_rejected this px env w1 e)),
           snd (response_rejected this px env w1 e))
      | (Inr c1, w1) \<Rightarrow>
          (case adapter_result env of
             Inl e \<Rightarrow>
               (Inl (fst (response_rejected this px env
                       (w1\<lparr> sent := sent w1 @ [c1\<lparr> req_data := transformRequest this px (req_data c1) \<rparr>] \<rparr>) e)),
                snd (response_rejected this px env
                       (w1\<lparr> sent := sent w1 @ [c1\<lparr> req_data := transformRequest this px (req_data c1) \<rparr>] \<rparr>) e))
           | Inr r \<Rightarrow>
               response_fulfilled this px env
                 (w1\<lparr> sent := sent w1 @ [c1\<lparr> req_data := transformRequest this px (req_data c1) \<rparr>] \<rparr>) r))"

definition constructUrl :: "Platform \<Rightarrow> string \<Rightarrow> (string \<times> js) list option \<Rightarrow> string" where
  "constructUrl px u qp =
     (let params =
            map (\<lambda>(k, v). (k, String_js v))
              (filter (\<lambda>(k, v). v \<noteq> JUndefined \<and> v \<noteq> JNull) (case qp of None \<Rightarrow> [] | Some q \<Rightarrow> q));
          queryString = URLSearchParams_toString px params
      in if queryString \<noteq> []
         then u @ (if CHR ''?'' \<in> set u then ''&'' else ''?'') @ queryString
         else u)"

text \<open>
  The request configuration the HTTP library builds for \<open>client.get(url, config)\<close> and
  its siblings: a new object, with the instance's default headers under the call's.
\<close>

definition axios_config ::
  "WebLattice \<Rightarrow> CallEnv \<Rightarrow> string \<Rightarrow> string \<Rightarrow> js \<Rightarrow> bool option \<Rightarrow> ApiRequestConfig
   \<Rightarrow> AxiosRequestConfig" where
  "axios_config this env m u d g cfg =
     \<lparr> ident = fresh_ident env,
       url = Some u,
       req_method = Some m,
       req_headers =
         foldl (\<lambda>acc (k, v). hset k v acc) (client_headers this)
           (case rc_headers cfg of None \<Rightarrow> [] | Some hs \<Rightarrow> hs),
       req_data = d,
       isGraphQL = g,
       startTime_tag = None,
       isGraphQL_tag = None \<rparr>"

definition success_envelope :: "AxiosResponse \<Rightarrow> js \<Rightarrow> ApiResponse" where
  "success_envelope r d =
     \<lparr> success = True, data = Some d, error = None, statusCode = Some (status r),
       errorCode = None, api_headers = Some (res_headers r) \<rparr>"

text \<open>\<open>error.response?.status\<close> in a boolean position: undefined and 0 are falsy.\<close>

definition response_status :: "Thrown \<Rightarrow> nat option" where
  "response_status e =
     (case response e of None \<Rightarrow> None | Some r \<Rightarrow> if status r = 0 then None else Some (status r))"

text \<open>The \<open>catch\<close> block shared by the six methods.\<close>

definition catch_envelope :: "Thrown \<Rightarrow> ApiResponse" where
  "catch_envelope e =
     \<lparr> success = False,
       data = None,
       error = Some (case message e of
                       None \<Rightarrow> ''An unknown error occurred''
                     | Some m \<Rightarrow> if m = [] then ''An unknown error occurred'' else m),
       statusCode = Some (case response_status e of None \<Rightarrow> 500 | Some s \<Rightarrow> s),
       errorCode = Some (''ERR_'' @ (case response_status e of None \<Rightarrow> ''UNKNOWN'' | Some s \<Rightarrow> decimal s)),
       api_headers = None \<rparr>"

text \<open>
  The body shared by \<open>get\<close>, \<open>post\<close>, \<open>put\<close>, \<open>patch\<close> and \<open>delete\<close>, which differ in the
  HTTP method and in whether they carry data.
\<close>

definition request_verb ::
  "string \<Rightarrow> WebLattice \<Rightarrow> Platform \<Rightarrow> CallEnv \<Rightarrow> World \<Rightarrow> string \<Rightarrow> js \<Rightarrow> ApiRequestConfig
   \<Rightarrow> ApiResponse \<times> World" where
  "request_verb m this px env w u d cfg =
     (case client_request this px env w
             (axios_config this env m (constructUrl px u (queryParams cfg)) d (rc_isGraphQL cfg) cfg) of
        (Inr r, w') \<Rightarrow> (success_envelope r (res_data r), w')
      | (Inl e, w') \<Rightarrow> (catch_envelope e, w'))"

definition WebLattice_get ::
  "WebLattice \<Rightarrow> Platform \<Rightarrow> CallEnv \<Rightarrow> World \<Rightarrow> string \<Rightarrow> ApiRequestConfig \<Rightarrow> ApiResponse \<times> World" where
  "WebLattice_get this px env w u cfg = request_verb ''get'' this px env w u JUndefined cfg"

definition WebLattice_post ::
  "WebLattice \<Rightarrow> Platform \<Rightarrow> CallEnv \<Rightarrow> World \<Rightarrow> string \<Rightarrow> js \<Rightarrow> ApiRequestConfig \<Rightarrow> ApiResponse \<times> World" where
  "WebLattice_post this px env w u d cfg = request_verb ''post'' this px env w u d cfg"

definition WebLattice_put ::
  "WebLattice \<Rightarrow> Platform \<Rightarrow> CallEnv \<Rightarrow> World \<Rightarrow> string \<Rightarrow> js \<Rightarrow> ApiRequestConfig \<Rightarrow> ApiResponse \<times> World" where
  "WebLattice_put this px env w u d cfg = request_verb ''put'' this px env w u d cfg"

definition WebLattice_patch ::
  "WebLattice \<Rightarrow> Platform \<Rightarrow> CallEnv \<Rightarrow> World \<Rightarrow> string \<Rightarrow> js \<Rightarrow> ApiRequestConfig \<Rightarrow> ApiResponse \<times> World" where
  "WebLattice_patch this px env w u d cfg = request_verb ''patch'' this px env w u d cfg"

definition WebLattice_delete ::
  "WebLattice \<Rightarrow> Platform \<Rightarrow> CallEnv \<Rightarrow> World \<Rightarrow> string \<Rightarrow> ApiRequestConfig \<Rightarrow> ApiResponse \<times> World" where
  "WebLattice_delete this px env w u cfg = request_verb ''delete'' this px env w u JUndefined cfg"

text \<open>\<open>config.baseUrl || globalConfig.graphql?.endpoint || ""\<close>.\<close>

definition graphql_endpoint :: "NetworkConfig \<Rightarrow> ApiRequestConfig \<Rightarrow> string" where
  "graphql_endpoint g cfg =
     (if truthy_str (rc_baseUrl cfg) then (case rc_baseUrl cfg of None \<Rightarrow> [] | Some b \<Rightarrow> b)
      else (case Option.bind (rd (graphql g)) endpoint of None \<Rightarrow> [] | Some ep \<Rightarrow> ep))"

text \<open>
  \<open>response.data.data\<close>: reading a property of undefined or null throws a TypeError, a
  value that is no object has no such property.
\<close>

definition data_of :: "js \<Rightarrow> string + js" where
  "data_of v =
     (case v of
        JUndefined \<Rightarrow> Inl ''Cannot read properties of undefined (reading 'data')''
      | JNull \<Rightarrow> Inl ''Cannot read properties of null (reading 'data')''
      | JObj kvs \<Rightarrow> Inr (case map_of kvs ''data'' of None \<Rightarrow> JUndefined | Some d \<Rightarrow> d)
      | _ \<Rightarrow> Inr JUndefined)"

definition WebLattice_graphql ::
  "WebLattice \<Rightarrow> Platform \<Rightarrow> CallEnv \<Rightarrow> World \<Rightarrow> string \<Rightarrow> js \<Rightarrow> ApiRequestConfig \<Rightarrow> ApiResponse \<times> World" where
  "WebLattice_graphql this px env w query variables cfg =
     (if graphql_endpoint (globalConfig w) cfg = []
      then (catch_envelope (Error ''GraphQL endpoint is not configured''), w)
      else (case client_request this px env w
                   (axios_config this env ''post'' (graphql_endpoint (globalConfig w) cfg)
                      (JObj [(''query'', JStr query), (''variables'', variables)]) (Some True) cfg) of
              (Inl e, w') \<Rightarrow> (catch_envelope e, w')
            | (Inr r, w') \<Rightarrow>
                (case data_of (res_data r) of
                   Inl msg \<Rightarrow> (catch_envelope (Error msg), w')
                 | Inr d \<Rightarrow> (success_envelope r d, w'))))"

text \<open>A call through any of the six methods.\<close>

datatype api_call =
    Call_get string ApiRequestConfig
  | Call_post string js ApiRequestConfig
  | Call_put string js ApiRequestConfig
  | Call_patch string js ApiRequestConfig
  | Call_delete string ApiRequestConfig
  | Call_graphql string js ApiRequestConfig

fun perform :: "WebLattice \<Rightarrow> Platform \<Rightarrow> CallEnv \<Rightarrow> World \<Rightarrow> api_call \<Rightarrow> ApiResponse \<times> World" where
  "perform this px env w (Call_get u cfg) = WebLattice_get this px env w u cfg"
| "perform this px env w (Call_post u d cfg) = WebLattice_post this px env w u d cfg"
| "perform this px env w (Call_put u d cfg) = WebLattice_put this px env w u d cfg"
| "perform this px env w (Call_patch u d cfg) = WebLattice_patch this px env w u d cfg"
| "perform this px env w (Call_delete u cfg) = WebLattice_delete this px env w u cfg"
| "perform this px env w (Call_graphql q v cfg) = WebLattice_graphql this px env w q v cfg"

text \<open>The \<open>gql\<close> tag: \<open>strings.reduce((result, str, i) => result + str + (values[i] || ""), "")\<close>.\<close>

definition at_index :: "js list \<Rightarrow> nat \<Rightarrow> js" where
  "at_index vs i = (if i < length vs then vs ! i else JUndefined)"

definition or_empty :: "js \<Rightarrow> js" where
  "or_empty v = (if truthy v then v else JStr [])"

fun gql_reduce :: "js list \<Rightarrow> string \<Rightarrow> nat \<Rightarrow> string list \<Rightarrow> string" where
  "gql_reduce vs result i [] = result"
| "gql_reduce vs result i (str # rest) =
     gql_reduce vs (result @ str @ String_js (or_empty (at_index vs i))) (Suc i) rest"

definition gql :: "string list \<Rightarrow> js list \<Rightarrow> string" where
  "gql strings vs = gql_reduce vs [] 0 strings"

text \<open>
  What the specification says of \<open>gql\<close>: the fragments and the interpolated values,
  concatenated in order, as the untagged template literal would.
\<close>

fun gql_spec :: "string list \<Rightarrow> js list \<Rightarrow> string" where
  "gql_spec [] vs = []"
| "gql_spec (s # ss) [] = s @ gql_spec ss []"
| "gql_spec (s # ss) (v # vs) = s @ String_js v @ gql_spec ss vs"

text \<open>\<open>initWebLattice\<close>.\<close>

record InitConfig =
  init_baseUrl :: string
  init_env :: "Environment option"
  encryptionKey :: "string option"
  init_timeout :: "int option"
  init_headers :: "(string \<times> string) list option"
  init_useRemoteKeys :: "bool option"
  enableMetrics :: "bool option"

definition sdkConfig :: "InitConfig \<Rightarrow> NetworkConfig" where
  "sdkConfig c =
     \<lparr> baseUrl = Value (init_baseUrl c),
       timeout = Value (case init_timeout c of None \<Rightarrow> 10000 | Some t \<Rightarrow> if t = 0 then 10000 else t),
       headers = (case init_headers c of None \<Rightarrow> Undefined | Some hs \<Rightarrow> Value hs),
       environment = Value (case init_env c of None \<Rightarrow> Env_DEV | Some e \<Rightarrow> e),
       encryption =
         Value \<lparr> enabled = truthy_str (encryptionKey c),
                 secretKey = Some (case encryptionKey c of None \<Rightarrow> [] | Some k \<Rightarrow> k),
                 useRemoteKeys = Some (init_useRemoteKeys c = Some True) \<rparr>,
       metrics = Value \<lparr> metrics_enabled = (enableMetrics c \<noteq> Some False), logToConsole = Some True \<rparr>,
       graphql = Absent \<rparr>"

definition initWebLattice :: "InitConfig \<Rightarrow> World \<Rightarrow> WebLattice \<times> World" where
  "initWebLattice c w = new_WebLattice (sdkConfig c) w"

section \<open>Observing a call\<close>

text \<open>
  The metrics sink is the console: the records written there by \<open>recordMetrics\<close> are
  counted, and so are the errors logged under a given label.
\<close>

fun is_metric_log :: "console_entry \<Rightarrow> bool" where
  "is_metric_log (Console_log label d t) = True"
| "is_metric_log (Console_error label e) = False"

definition metrics_emitted :: "World \<Rightarrow> nat" where
  "metrics_emitted w = length (filter is_metric_log (console w))"

fun is_error_log :: "string \<Rightarrow> console_entry \<Rightarrow> bool" where
  "is_error_log l (Console_log label d t) = False"
| "is_error_log l (Console_error label e) = (label = l)"

definition logged :: "string \<Rightarrow> World \<Rightarrow> nat" where
  "logged l w = length (filter (is_error_log l) (console w))"

text \<open>
  The three places where the response interceptor gives up on a body: a decryption that
  throws (either handler) and a decrypted success body that does not parse.
\<close>

fun is_abort_log :: "console_entry \<Rightarrow> bool" where
  "is_abort_log (Console_log label d t) = False"
| "is_abort_log (Console_error label e) =
     (label = ''Error in response decryption:''
      \<or> label = ''Error parsing decrypted JSON:''
      \<or> label = ''Error decrypting error response data:'')"

definition aborts_logged :: "World \<Rightarrow> nat" where
  "aborts_logged w = length (filter is_abort_log (console w))"

text \<open>Metrics reach the console when they are enabled and \<open>logToConsole\<close> is set.\<close>

definition metrics_on :: "NetworkConfig \<Rightarrow> bool" where
  "metrics_on g =
     (case rd (metrics g) of
        None \<Rightarrow> False
      | Some m \<Rightarrow> metrics_enabled m \<and> logToConsole m = Some True)"

text \<open>The redirects the specification asks for, given the HTTP status of a failed call.\<close>

definition expected_redirects :: "nat option \<Rightarrow> string list" where
  "expected_redirects st =
     (case st of
        None \<Rightarrow> []
      | Some s \<Rightarrow>
          if s = 401 then [''/enter-email'']
          else if 500 \<le> s \<and> s < 600 then [''/generic-error'']
          else [])"

text \<open>
  The HTTP status of a failed call: the status of the response inside the error the
  transport answered with.  There is none when the call sent no request (\<open>sent\<close> did not
  grow), when the transport's error carries no response, and when the transport fulfilled.
\<close>

definition http_failure_status :: "CallEnv \<Rightarrow> World \<Rightarrow> World \<Rightarrow> nat option" where
  "http_failure_status env w w' =
     (if sent w' = sent w then None
      else (case adapter_result env of
              Inl e \<Rightarrow> map_option status (response e)
            | Inr r \<Rightarrow> None))"

text \<open>A call reaches the client instance unless it is a \<open>graphql\<close> call with no endpoint.\<close>

fun reaches_client :: "NetworkConfig \<Rightarrow> api_call \<Rightarrow> bool" where
  "reaches_client g (Call_graphql q v cfg) = (graphql_endpoint g cfg \<noteq> [])"
| "reaches_client g c = True"

text \<open>
  The HTTP status of a failed call, read off the inputs: the status of the response inside
  the error the transport answered with.  There is none when the call never gets to the
  transport (no GraphQL endpoint, or the request interceptor throws), when the transport's
  error carries no response, and when the transport fulfilled.
\<close>

definition failure_status :: "NetworkConfig \<Rightarrow> CallEnv \<Rightarrow> api_call \<Rightarrow> nat option" where
  "failure_status g env call =
     (if reaches_client g call
      then (case sessionStorage_getItem env of
              Inl msg \<Rightarrow> None
            | Inr tok \<Rightarrow>
                (case adapter_result env of
                   Inl e \<Rightarrow> map_option status (response e)
                 | Inr r \<Rightarrow> None))
      else None)"

text \<open>
  When the answer to a call arrives, the side table holds keys for the request object
  \<open>i\<close> if a production client stored them for this call's own request object, or if they
  were there before.
\<close>

definition keys_known :: "CallEnv \<Rightarrow> World \<Rightarrow> nat \<Rightarrow> bool" where
  "keys_known env w i = (i = fresh_ident env \<or> requestKeys w i \<noteq> None)"

text \<open>
  The bodies the response interceptor decrypts: those of a production client with
  encryption, for a request object with keys, that are non-empty strings.
\<close>

definition must_decrypt :: "WebLattice \<Rightarrow> CallEnv \<Rightarrow> World \<Rightarrow> nat \<Rightarrow> js \<Rightarrow> bool" where
  "must_decrypt this env w i body =
     (isProd (this_config this) \<and> keys_known env w i \<and> truthy body \<and> typeof_string body)"

text \<open>
  What a fulfilled response's body is to the caller: itself, or, where it must be
  decrypted, the JSON value of its plain text; \<open>Inl\<close> when the cipher or the JSON parser
  throws.
\<close>

definition decoded_body ::
  "WebLattice \<Rightarrow> Platform \<Rightarrow> CallEnv \<Rightarrow> World \<Rightarrow> AxiosResponse \<Rightarrow> string + js" where
  "decoded_body this px env w r =
     (if must_decrypt this env w (ident (res_config r)) (res_data r)
      then (case decryptData px (globalConfig w) (String_js (res_data r)) of
              Inl m \<Rightarrow> Inl m
            | Inr plain \<Rightarrow> JSON_parse px plain)
      else Inr (res_data r))"

text \<open>Whether the cipher accepts the body of an error response, where it must be decrypted.\<close>

definition error_body_decrypts ::
  "WebLattice \<Rightarrow> Platform \<Rightarrow> CallEnv \<Rightarrow> World \<Rightarrow> Thrown \<Rightarrow> bool" where
  "error_body_decrypts this px env w e =
     (case (response e, config e) of
        (Some r, Some c) \<Rightarrow>
          (if must_decrypt this env w (ident c) (res_data r)
           then (case decryptData px (globalConfig w) (String_js (res_data r)) of
                   Inl m \<Rightarrow> False
                 | Inr plain \<Rightarrow> True)
           else True)
      | _ \<Rightarrow> True)"

text \<open>
  The answer of the transport is readable when the interceptor can decrypt it and, for a
  fulfilled response, parse it.  Nothing is to be read when the request interceptor throws.
\<close>

definition body_readable :: "WebLattice \<Rightarrow> Platform \<Rightarrow> CallEnv \<Rightarrow> World \<Rightarrow> bool" where
  "body_readable this px env w =
     (case sessionStorage_getItem env of
        Inl msg \<Rightarrow> True
      | Inr tok \<Rightarrow>
          (case adapter_result env of
             Inl e \<Rightarrow> error_body_decrypts this px env w e
           | Inr r \<Rightarrow> (case decoded_body this px env w r of Inl m \<Rightarrow> False | Inr d \<Rightarrow> True)))"

fun is_graphql :: "api_call \<Rightarrow> bool" where
  "is_graphql (Call_graphql q v cfg) = True"
| "is_graphql c = False"

text \<open>
  The reasons for which a call fails: no GraphQL endpoint; the request interceptor throws;
  the transport rejects (no response, or a status the HTTP library refuses); the body of a
  fulfilled response cannot be decrypted or parsed; for \<open>graphql\<close>, the body is undefined
  or null, so that reading its \<open>data\<close> throws.
\<close>

definition call_fails ::
  "WebLattice \<Rightarrow> Platform \<Rightarrow> CallEnv \<Rightarrow> World \<Rightarrow> api_call \<Rightarrow> bool" where
  "call_fails this px env w call =
     (if reaches_client (globalConfig w) call
      then (case sessionStorage_getItem env of
              Inl msg \<Rightarrow> True
            | Inr tok \<Rightarrow>
                (case adapter_result env of
                   Inl e \<Rightarrow> True
                 | Inr r \<Rightarrow>
                     (case decoded_body this px env w r of
                        Inl m \<Rightarrow> True
                      | Inr d \<Rightarrow> is_graphql call \<and> (d = JUndefined \<or> d = JNull))))
      else True)"

section \<open>Concrete inputs\<close>

text \<open>A toy platform for concrete evaluation: the cipher prepends the key.\<close>

definition toy_stringify :: "js \<Rightarrow> string" where
  "toy_stringify v = (case v of JStr s \<Rightarrow> CHR 0x22 # s @ [CHR 0x22] | JObj kvs \<Rightarrow> ''{}'' | JArr xs \<Rightarrow> ''[]'' | _ \<Rightarrow> String_js v)"

definition toy_parse :: "string \<Rightarrow> string + js" where
  "toy_parse s =
     (if s = ''{}'' then Inr (JObj [])
      else if s = ''null'' then Inr JNull
      else if s = ''true'' then Inr (JBool True)
      else Inl ''Unexpected token'')"

definition toy_decrypt :: "string \<Rightarrow> string \<Rightarrow> string + string" where
  "toy_decrypt c k =
     (if take (length k) c = k then Inr (drop (length k) c)
      else Inl ''Malformed UTF-8 data'')"

definition toy :: Platform where
  "toy = \<lparr> JSON_stringify = toy_stringify,
           JSON_parse = toy_parse,
           AES_encrypt = (\<lambda>plain k. k @ plain),
           AES_decrypt = toy_decrypt,
           URLSearchParams_toString = (\<lambda>ps. concat (map (\<lambda>(k, v). k @ ''='' @ v @ ''&'') ps)) \<rparr>"

text \<open>A development configuration with encryption switched on and a key.\<close>

definition dev_keyed_config :: NetworkConfig where
  "dev_keyed_config =
     \<lparr> baseUrl = Value ''https://api.example.com'',
       timeout = Value 10000,
       headers = Absent,
       environment = Value Env_DEV,
       encryption = Value \<lparr> enabled = True, secretKey = Some ''k'', useRemoteKeys = None \<rparr>,
       metrics = Value \<lparr> metrics_enabled = True, logToConsole = Some True \<rparr>,
       graphql = Absent \<rparr>"

text \<open>A production configuration with encryption switched on and a key.\<close>

definition prod_keyed_config :: NetworkConfig where
  "prod_keyed_config =
     \<lparr> baseUrl = Value ''https://api.example.com'',
       timeout = Value 10000,
       headers = Undefined,
       environment = Value Env_PROD,
       encryption = Value \<lparr> enabled = True, secretKey = Some ''k'', useRemoteKeys = Some False \<rparr>,
       metrics = Value \<lparr> metrics_enabled = True, logToConsole = Some True \<rparr>,
       graphql = Absent \<rparr>"

text \<open>The partial update \<open>{ encryption: { enabled: true } }\<close>.\<close>

definition only_encryption :: NetworkConfig where
  "only_encryption =
     \<lparr> baseUrl = Absent, timeout = Absent, headers = Absent, environment = Absent,
       encryption = Value \<lparr> enabled = True, secretKey = None, useRemoteKeys = None \<rparr>,
       metrics = Absent, graphql = Absent \<rparr>"

text \<open>A production configuration with another key.\<close>

definition prod_other_key_config :: NetworkConfig where
  "prod_other_key_config =
     \<lparr> baseUrl = Value ''https://a.example.com'',
       timeout = Value 10000,
       headers = Undefined,
       environment = Value Env_PROD,
       encryption = Value \<lparr> enabled = True, secretKey = Some ''ka'', useRemoteKeys = Some False \<rparr>,
       metrics = Value \<lparr> metrics_enabled = True, logToConsole = Some True \<rparr>,
       graphql = Absent \<rparr>"

text \<open>A development configuration whose metrics are enabled without \<open>logToConsole\<close>.\<close>

definition dev_unlogged_config :: NetworkConfig where
  "dev_unlogged_config =
     \<lparr> baseUrl = Value ''https://api.example.com'',
       timeout = Absent,
       headers = Absent,
       environment = Value Env_DEV,
       encryption = Absent,
       metrics = Value \<lparr> metrics_enabled = True, logToConsole = None \<rparr>,
       graphql = Absent \<rparr>"

text \<open>The world before any client exists, and after one client was constructed.\<close>

definition w_init :: World where
  "w_init =
     \<lparr> globalConfig = initial_globalConfig, requestKeys = (\<lambda>i. None), console = [],
       location_assign = [], sent = [] \<rparr>"

definition dev_client :: WebLattice where
  "dev_client = fst (new_WebLattice dev_keyed_config w_init)"

definition dev_world :: World where
  "dev_world = snd (new_WebLattice dev_keyed_config w_init)"

definition prod_client :: WebLattice where
  "prod_client = fst (new_WebLattice prod_keyed_config w_init)"

definition prod_world :: World where
  "prod_world = snd (new_WebLattice prod_keyed_config w_init)"

definition unlogged_client :: WebLattice where
  "unlogged_client = fst (new_WebLattice dev_unlogged_config w_init)"

definition unlogged_world :: World where
  "unlogged_world = snd (new_WebLattice dev_unlogged_config w_init)"

definition no_options :: ApiRequestConfig where
  "no_options =
     \<lparr> rc_baseUrl = None, queryParams = None, rc_isGraphQL = None, rc_headers = None,
       rc_timeout = None \<rparr>"

text \<open>The request configuration object of the examples, number 7.\<close>

definition req7 :: AxiosRequestConfig where
  "req7 =
     \<lparr> ident = 7, url = Some ''/users'', req_method = Some ''get'', req_headers = [],
       req_data = JUndefined, isGraphQL = None, startTime_tag = Some 100,
       isGraphQL_tag = Some False \<rparr>"

definition answering :: "Thrown + AxiosResponse \<Rightarrow> CallEnv" where
  "answering a =
     \<lparr> Date_now_request = 100, Date_now_response = 130,
       toISOString = ''2024-01-01T00:00:00.000Z'',
       sessionStorage_getItem = Inr None, generated_keys = (''aes'', ''iv''),
       correlation_id = ''100-abc'', fresh_ident = 7, adapter_result = a \<rparr>"

text \<open>A 200 response with a JSON object.\<close>

definition env_200 :: CallEnv where
  "env_200 = answering (Inr \<lparr> res_data = JObj [], status = 200, res_headers = [], res_config = req7 \<rparr>)"

text \<open>A 401 response whose body is the plain text \<open>Unauthorized\<close>.\<close>

definition error_401 :: Thrown where
  "error_401 =
     \<lparr> message = Some ''Request failed with status code 401'',
       response = Some \<lparr> res_data = JStr ''Unauthorized'', status = 401, res_headers = [],
                         res_config = req7 \<rparr>,
       config = Some req7 \<rparr>"

definition env_401 :: CallEnv where
  "env_401 = answering (Inl error_401)"

text \<open>
  A 200 and a 401 response whose body decrypts under the key \<open>k\<close> to \<open><html>\<close>, which is
  not JSON.
\<close>

definition env_200_html :: CallEnv where
  "env_200_html =
     answering (Inr \<lparr> res_data = JStr ''k<html>'', status = 200, res_headers = [], res_config = req7 \<rparr>)"

definition error_401_html :: Thrown where
  "error_401_html =
     \<lparr> message = Some ''Request failed with status code 401'',
       response = Some \<lparr> res_data = JStr ''k<html>'', status = 401, res_headers = [],
                         res_config = req7 \<rparr>,
       config = Some req7 \<rparr>"

definition env_401_html :: CallEnv where
  "env_401_html = answering (Inl error_401_html)"

text \<open>An error whose response has the status 0, as a browser reports for a \<open>file:\<close> URL.\<close>

definition error_0 :: Thrown where
  "error_0 =
     \<lparr> message = Some ''Request failed with status code 0'',
       response = Some \<lparr> res_data = JStr [], status = 0, res_headers = [], res_config = req7 \<rparr>,
       config = Some req7 \<rparr>"

definition env_0 :: CallEnv where
  "env_0 = answering (Inl error_0)"

text \<open>A 200 response without a body.\<close>

definition env_200_empty :: CallEnv where
  "env_200_empty =
     answering (Inr \<lparr> res_data = JUndefined, status = 200, res_headers = [], res_config = req7 \<rparr>)"

text \<open>Per-call options that name a GraphQL endpoint.\<close>

definition graphql_options :: ApiRequestConfig where
  "graphql_options =
     \<lparr> rc_baseUrl = Some ''/graphql'', queryParams = None, rc_isGraphQL = None, rc_headers = None,
       rc_timeout = None \<rparr>"

text \<open>A 200 response whose body the cipher rejects under the key \<open>k\<close>.\<close>

definition env_200_rejected :: CallEnv where
  "env_200_rejected =
     answering (Inr \<lparr> res_data = JStr ''Unauthorized'', status = 200, res_headers = [],
                      res_config = req7 \<rparr>)"

section \<open>How each step changes what is observed\<close>

lemmas model_defs =
  WebLattice_get_def WebLattice_post_def WebLattice_graphql_def request_verb_def
  client_request_def request_interceptor_def response_rejected_def response_fulfilled_def
  handleProductionSecurity_def updateHeadersWithEncryption_def addCommonHeaders_def
  copy_headers_def axios_config_def constructUrl_def transformRequest_def graphql_endpoint_def
  recordMetrics_def redirect_on_status_def window_location_assign_def console_error_def
  isProd_def decryptData_def encryptData_def encryption_off_def configured_key_def
  getPublicKeyDetails_def new_WebLattice_def setNetworkConfig_def
  catch_envelope_def success_envelope_def response_status_def Error_def
  failure_metric_def success_metric_def getRequestMetadata_def or_time_def sized_def
  metrics_emitted_def logged_def aborts_logged_def metrics_on_def expected_redirects_def
  http_failure_status_def failure_status_def keys_known_def must_decrypt_def decoded_body_def
  error_body_decrypts_def body_readable_def call_fails_def data_of_def

lemmas example_defs =
  toy_def toy_decrypt_def toy_parse_def toy_stringify_def
  initial_globalConfig_def dev_keyed_config_def prod_keyed_config_def prod_other_key_config_def
  dev_unlogged_config_def w_init_def dev_client_def dev_world_def prod_client_def prod_world_def
  unlogged_client_def unlogged_world_def no_options_def req7_def answering_def
  error_0_def env_0_def env_200_empty_def graphql_options_def env_200_rejected_def
  env_200_def error_401_def env_401_def env_200_html_def error_401_html_def env_401_html_def

lemma recordMetrics_obs [simp]:
  "metrics_emitted (recordMetrics env d w)
     = metrics_emitted w + (if metrics_on (globalConfig w) then 1 else 0)"
  "logged l (recordMetrics env d w) = logged l w"
  "aborts_logged (recordMetrics env d w) = aborts_logged w"
  "location_assign (recordMetrics env d w) = location_assign w"
  "globalConfig (recordMetrics env d w) = globalConfig w"
  "sent (recordMetrics env d w) = sent w"
  "requestKeys (recordMetrics env d w) = requestKeys w"
  by (simp_all add: recordMetrics_def metrics_emitted_def logged_def aborts_logged_def
      metrics_on_def split: option.splits)

lemma console_error_obs [simp]:
  "metrics_emitted (console_error l' e w) = metrics_emitted w"
  "logged l (console_error l' e w) = logged l w + (if l' = l then 1 else 0)"
  "aborts_logged (console_error l' e w)
     = aborts_logged w + (if is_abort_log (Console_error l' e) then 1 else 0)"
  "location_assign (console_error l' e w) = location_assign w"
  "globalConfig (console_error l' e w) = globalConfig w"
  "sent (console_error l' e w) = sent w"
  "requestKeys (console_error l' e w) = requestKeys w"
  by (simp_all add: console_error_def metrics_emitted_def logged_def aborts_logged_def)

lemma redirect_obs [simp]:
  "metrics_emitted (redirect_on_status st w) = metrics_emitted w"
  "logged l (redirect_on_status st w) = logged l w"
  "aborts_logged (redirect_on_status st w) = aborts_logged w"
  "location_assign (redirect_on_status st w) = location_assign w @ expected_redirects st"
  "globalConfig (redirect_on_status st w) = globalConfig w"
  "sent (redirect_on_status st w) = sent w"
  "requestKeys (redirect_on_status st w) = requestKeys w"
  by (auto simp: redirect_on_status_def window_location_assign_def metrics_emitted_def logged_def
      aborts_logged_def expected_redirects_def split: option.splits)

lemma sent_update_obs [simp]:
  "metrics_emitted (w\<lparr> sent := x \<rparr>) = metrics_emitted w"
  "aborts_logged (w\<lparr> sent := x \<rparr>) = aborts_logged w"
  "logged l (w\<lparr> sent := x \<rparr>) = logged l w"
  by (simp_all add: metrics_emitted_def aborts_logged_def logged_def)

lemma keys_update_obs [simp]:
  "metrics_emitted (w\<lparr> requestKeys := x \<rparr>) = metrics_emitted w"
  "aborts_logged (w\<lparr> requestKeys := x \<rparr>) = aborts_logged w"
  "logged l (w\<lparr> requestKeys := x \<rparr>) = logged l w"
  by (simp_all add: metrics_emitted_def aborts_logged_def logged_def)

subsection \<open>The error handler\<close>

lemma response_rejected_frame:
  "globalConfig (snd (response_rejected this px env w e)) = globalConfig w"
  "sent (snd (response_rejected this px env w e)) = sent w"
  by (simp_all add: response_rejected_def split: option.splits sum.splits)

lemma response_rejected_redirect:
  assumes "logged ''Error decrypting error response data:'' (snd (response_rejected this px env w e))
           = logged ''Error decrypting error response data:'' w"
  shows "location_assign (snd (response_rejected this px env w e))
         = location_assign w @ expected_redirects (map_option status (response e))"
  using assms
  by (auto simp: response_rejected_def split: option.splits sum.splits if_splits)

lemma response_rejected_metrics:
  assumes "aborts_logged (snd (response_rejected this px env w e)) = aborts_logged w"
  shows "metrics_emitted (snd (response_rejected this px env w e))
         = metrics_emitted w + (if metrics_on (globalConfig w) then 1 else 0)"
  using assms
  by (auto simp: response_rejected_def split: option.splits sum.splits if_splits)

lemma response_status_alt:
  "response_status e
   = (case map_option status (response e) of
        None \<Rightarrow> None
      | Some s \<Rightarrow> if s = 0 then None else Some s)"
  by (simp add: response_status_def split: option.splits)

lemma response_rejected_status:
  "map_option status (response (fst (response_rejected this px env w e)))
   = map_option status (response e)"
  by (auto simp: response_rejected_def split: option.splits sum.splits if_splits)

subsection \<open>The success handler\<close>

lemma response_fulfilled_frame:
  "globalConfig (snd (response_fulfilled this px env w r)) = globalConfig w"
  "sent (snd (response_fulfilled this px env w r)) = sent w"
  "location_assign (snd (response_fulfilled this px env w r)) = location_assign w"
  by (simp_all add: response_fulfilled_def split: option.splits sum.splits)

lemma response_fulfilled_metrics:
  assumes "aborts_logged (snd (response_fulfilled this px env w r)) = aborts_logged w"
  shows "metrics_emitted (snd (response_fulfilled this px env w r))
         = metrics_emitted w + (if metrics_on (globalConfig w) then 1 else 0)"
  using assms
  by (auto simp: response_fulfilled_def split: option.splits sum.splits if_splits)

lemma response_fulfilled_error:
  "fst (response_fulfilled this px env w r) = Inl e \<Longrightarrow> response e = None"
  by (auto simp: response_fulfilled_def Error_def split: option.splits sum.splits if_splits)

subsection \<open>The request interceptor\<close>

lemma request_interceptor_frame:
  assumes "request_interceptor this px env w c = (res, w1)"
  shows "metrics_emitted w1 = metrics_emitted w"
    and "aborts_logged w1 = aborts_logged w"
    and "logged ''Error decrypting error response data:'' w1
         = logged ''Error decrypting error response data:'' w"
    and "location_assign w1 = location_assign w"
    and "globalConfig w1 = globalConfig w"
    and "sent w1 = sent w"
    and "res = Inl e \<Longrightarrow> response e = None"
  using assms
  by (auto simp: request_interceptor_def Error_def Let_def handleProductionSecurity_def
      split: sum.splits if_splits prod.splits)

lemma request_interceptor_ok:
  assumes tok: "sessionStorage_getItem env = Inr tok"
  shows "\<exists>c1 w1. request_interceptor this px env w c = (Inr c1, w1)
           \<and> globalConfig w1 = globalConfig w \<and> console w1 = console w
           \<and> location_assign w1 = location_assign w \<and> sent w1 = sent w
           \<and> (isProd (this_config this) \<longrightarrow> requestKeys w1 (ident c) \<noteq> None)"
  using tok
  by (auto simp: request_interceptor_def Let_def handleProductionSecurity_def split: prod.splits)

lemma request_interceptor_data:
  assumes "request_interceptor this px env w c = (Inr c1, w1)"
  shows "req_data c1
         = (if isProd (this_config this) \<and> truthy (req_data c) \<and> typeof_object (req_data c)
            then JStr (encryptData px (globalConfig w) (req_data c)) else req_data c)"
  using assms
  by (auto simp: request_interceptor_def Let_def handleProductionSecurity_def
      updateHeadersWithEncryption_def addCommonHeaders_def
      split: sum.splits prod.splits option.splits if_splits)

subsection \<open>One request through the client instance\<close>

lemma client_request_metrics:
  assumes run: "client_request this px env w c = (res, w')"
    and quiet: "aborts_logged w' = aborts_logged w"
  shows "metrics_emitted w' = metrics_emitted w + (if metrics_on (globalConfig w) then 1 else 0)"
proof (cases "request_interceptor this px env w c")
  case (Pair ri w1)
  note fr = request_interceptor_frame [OF Pair]
  show ?thesis
  proof (cases ri)
    case (Inl e)
    with Pair run have w': "w' = snd (response_rejected this px env w1 e)"
      by (simp add: client_request_def)
    from quiet fr(2)
    have "aborts_logged (snd (response_rejected this px env w1 e)) = aborts_logged w1"
      by (simp add: w')
    from response_rejected_metrics [OF this] fr(1) fr(5) show ?thesis
      by (simp add: w')
  next
    case (Inr c1)
    define w2 where
      "w2 = w1\<lparr> sent := sent w1 @ [c1\<lparr> req_data := transformRequest this px (req_data c1) \<rparr>] \<rparr>"
    have w2: "metrics_emitted w2 = metrics_emitted w" "aborts_logged w2 = aborts_logged w"
      "globalConfig w2 = globalConfig w"
      using fr by (simp_all add: w2_def)
    show ?thesis
    proof (cases "adapter_result env")
      case (Inl e)
      with Pair Inr run have w': "w' = snd (response_rejected this px env w2 e)"
        by (simp add: client_request_def w2_def)
      from quiet w2(2)
      have "aborts_logged (snd (response_rejected this px env w2 e)) = aborts_logged w2"
        by (simp add: w')
      from response_rejected_metrics [OF this] w2 show ?thesis
        by (simp add: w')
    next
      case (Inr r)
      with Pair \<open>ri = Inr c1\<close> run have w': "w' = snd (response_fulfilled this px env w2 r)"
        by (simp add: client_request_def w2_def)
      from quiet w2(2)
      have "aborts_logged (snd (response_fulfilled this px env w2 r)) = aborts_logged w2"
        by (simp add: w')
      from response_fulfilled_metrics [OF this] w2 show ?thesis
        by (simp add: w')
    qed
  qed
qed

lemma client_request_redirect:
  assumes run: "client_request this px env w c = (res, w')"
    and quiet: "logged ''Error decrypting error response data:'' w'
                = logged ''Error decrypting error response data:'' w"
  shows "location_assign w' = location_assign w @ expected_redirects (http_failure_status env w w')"
proof (cases "request_interceptor this px env w c")
  case (Pair ri w1)
  note fr = request_interceptor_frame [OF Pair]
  show ?thesis
  proof (cases ri)
    case (Inl e)
    with Pair run have w': "w' = snd (response_rejected this px env w1 e)"
      by (simp add: client_request_def)
    from fr(7) [OF Inl] have none: "response e = None" .
    from quiet fr(3)
    have "logged ''Error decrypting error response data:'' (snd (response_rejected this px env w1 e))
          = logged ''Error decrypting error response data:'' w1"
      by (simp add: w')
    from response_rejected_redirect [OF this] none fr(4)
    have "location_assign w' = location_assign w"
      by (simp add: w' expected_redirects_def)
    moreover have "sent w' = sent w"
      using fr(6) by (simp add: w' response_rejected_frame)
    ultimately show ?thesis
      by (simp add: http_failure_status_def expected_redirects_def)
  next
    case (Inr c1)
    define w2 where
      "w2 = w1\<lparr> sent := sent w1 @ [c1\<lparr> req_data := transformRequest this px (req_data c1) \<rparr>] \<rparr>"
    have w2: "location_assign w2 = location_assign w"
      "logged ''Error decrypting error response data:'' w2
       = logged ''Error decrypting error response data:'' w"
      "sent w2 \<noteq> sent w"
      using fr by (simp_all add: w2_def)
    show ?thesis
    proof (cases "adapter_result env")
      case (Inl e)
      with Pair Inr run have w': "w' = snd (response_rejected this px env w2 e)"
        by (simp add: client_request_def w2_def)
      from quiet w2(2)
      have "logged ''Error decrypting error response data:'' (snd (response_rejected this px env w2 e))
            = logged ''Error decrypting error response data:'' w2"
        by (simp add: w')
      from response_rejected_redirect [OF this] w2 Inl show ?thesis
        by (simp add: w' http_failure_status_def response_rejected_frame)
    next
      case (Inr r)
      with Pair \<open>ri = Inr c1\<close> run have w': "w' = snd (response_fulfilled this px env w2 r)"
        by (simp add: client_request_def w2_def)
      with w2 Inr show ?thesis
        by (simp add: http_failure_status_def response_fulfilled_frame expected_redirects_def)
    qed
  qed
qed

lemma client_request_error_status:
  assumes run: "client_request this px env w c = (Inl e, w')"
  shows "response_status e
         = (case http_failure_status env w w' of
              None \<Rightarrow> None
            | Some s \<Rightarrow> if s = 0 then None else Some s)"
proof (cases "request_interceptor this px env w c")
  case (Pair ri w1)
  note fr = request_interceptor_frame [OF Pair]
  show ?thesis
  proof (cases ri)
    case (Inl e0)
    with Pair run have e: "e = fst (response_rejected this px env w1 e0)"
      and w': "w' = snd (response_rejected this px env w1 e0)"
      by (simp_all add: client_request_def)
    from fr(7) [OF Inl] have "response e0 = None" .
    then have "response_status e = None"
      by (simp add: e response_rejected_status response_status_alt)
    moreover have "sent w' = sent w"
      using fr(6) by (simp add: w' response_rejected_frame)
    ultimately show ?thesis
      by (simp add: http_failure_status_def)
  next
    case (Inr c1)
    define w2 where
      "w2 = w1\<lparr> sent := sent w1 @ [c1\<lparr> req_data := transformRequest this px (req_data c1) \<rparr>] \<rparr>"
    have w2: "sent w2 \<noteq> sent w"
      using fr by (simp_all add: w2_def)
    show ?thesis
    proof (cases "adapter_result env")
      case (Inl e0)
      with Pair Inr run have e: "e = fst (response_rejected this px env w2 e0)"
        and w': "w' = snd (response_rejected this px env w2 e0)"
        by (simp_all add: client_request_def w2_def)
      show ?thesis
        using w2 Inl
        by (simp add: e w' http_failure_status_def response_rejected_frame
            response_rejected_status response_status_alt)
    next
      case (Inr r)
      with Pair \<open>ri = Inr c1\<close> run
      have e: "Inl e = fst (response_fulfilled this px env w2 r)"
        and w': "w' = snd (response_fulfilled this px env w2 r)"
        by (simp_all add: client_request_def w2_def)
      from response_fulfilled_error [OF e [symmetric]] have "response e = None" .
      with w2 Inr show ?thesis
        by (simp add: w' http_failure_status_def response_fulfilled_frame response_status_def)
    qed
  qed
qed

lemma client_request_fulfilled:
  assumes run: "client_request this px env w c = (Inr r, w')"
  shows "http_failure_status env w w' = None"
    and "\<exists>tok. sessionStorage_getItem env = Inr tok"
    and "\<exists>r0. adapter_result env = Inr r0"
  using run
  by (auto simp: client_request_def http_failure_status_def request_interceptor_def
      split: prod.splits sum.splits)

subsection \<open>The six methods\<close>

lemma request_verb_shape:
  assumes "request_verb m this px env w u d cfg = (r, w')"
  shows "\<exists>c. (\<exists>e. client_request this px env w c = (Inl e, w') \<and> r = catch_envelope e)
           \<or> (\<exists>resp. client_request this px env w c = (Inr resp, w')
                  \<and> (success r \<or> (\<exists>msg. r = catch_envelope (Error msg))))"
proof -
  let ?c = "axios_config this env m (constructUrl px u (queryParams cfg)) d (rc_isGraphQL cfg) cfg"
  obtain res w1 where cr: "client_request this px env w ?c = (res, w1)"
    by (cases "client_request this px env w ?c")
  show ?thesis
  proof (cases res)
    case (Inl e)
    with cr assms have "w1 = w'" "r = catch_envelope e"
      by (simp_all add: request_verb_def)
    with cr Inl show ?thesis by blast
  next
    case (Inr resp)
    with cr assms have "w1 = w'" "success r"
      by (auto simp: request_verb_def success_envelope_def)
    with cr Inr show ?thesis by blast
  qed
qed

lemma graphql_shape:
  assumes "WebLattice_graphql this px env w q v cfg = (r, w')"
    and ep: "graphql_endpoint (globalConfig w) cfg \<noteq> []"
  shows "\<exists>c. (\<exists>e. client_request this px env w c = (Inl e, w') \<and> r = catch_envelope e)
           \<or> (\<exists>resp. client_request this px env w c = (Inr resp, w')
                  \<and> (success r \<or> (\<exists>msg. r = catch_envelope (Error msg))))"
proof -
  let ?c = "axios_config this env ''post'' (graphql_endpoint (globalConfig w) cfg)
              (JObj [(''query'', JStr q), (''variables'', v)]) (Some True) cfg"
  obtain res w1 where cr: "client_request this px env w ?c = (res, w1)"
    by (cases "client_request this px env w ?c")
  show ?thesis
  proof (cases res)
    case (Inl e)
    with cr assms have "w1 = w'" "r = catch_envelope e"
      by (simp_all add: WebLattice_graphql_def)
    with cr Inl show ?thesis by blast
  next
    case (Inr resp)
    with cr assms have "w1 = w'" "success r \<or> (\<exists>msg. r = catch_envelope (Error msg))"
      by (auto simp: WebLattice_graphql_def success_envelope_def split: sum.splits)
    with cr Inr show ?thesis by blast
  qed
qed

lemma perform_shape:
  assumes "perform this px env w call = (r, w')" and "reaches_client (globalConfig w) call"
  shows "\<exists>c. (\<exists>e. client_request this px env w c = (Inl e, w') \<and> r = catch_envelope e)
           \<or> (\<exists>resp. client_request this px env w c = (Inr resp, w')
                  \<and> (success r \<or> (\<exists>msg. r = catch_envelope (Error msg))))"
proof (cases call)
  case (Call_get u cfg)
  with assms have "request_verb ''get'' this px env w u JUndefined cfg = (r, w')"
    by (simp add: WebLattice_get_def)
  then show ?thesis by (rule request_verb_shape)
next
  case (Call_post u d cfg)
  with assms have "request_verb ''post'' this px env w u d cfg = (r, w')"
    by (simp add: WebLattice_post_def)
  then show ?thesis by (rule request_verb_shape)
next
  case (Call_put u d cfg)
  with assms have "request_verb ''put'' this px env w u d cfg = (r, w')"
    by (simp add: WebLattice_put_def)
  then show ?thesis by (rule request_verb_shape)
next
  case (Call_patch u d cfg)
  with assms have "request_verb ''patch'' this px env w u d cfg = (r, w')"
    by (simp add: WebLattice_patch_def)
  then show ?thesis by (rule request_verb_shape)
next
  case (Call_delete u cfg)
  with assms have "request_verb ''delete'' this px env w u JUndefined cfg = (r, w')"
    by (simp add: WebLattice_delete_def)
  then show ?thesis by (rule request_verb_shape)
next
  case (Call_graphql q v cfg)
  with assms have "WebLattice_graphql this px env w q v cfg = (r, w')"
    and "graphql_endpoint (globalConfig w) cfg \<noteq> []"
    by simp_all
  then show ?thesis by (rule graphql_shape)
qed

lemma perform_unreached:
  assumes "perform this px env w call = (r, w')" and "\<not> reaches_client (globalConfig w) call"
  shows "w' = w \<and> r = catch_envelope (Error ''GraphQL endpoint is not configured'')"
  using assms by (cases call) (auto simp: WebLattice_graphql_def)

lemma catch_envelope_Error:
  "catch_envelope (Error msg)
   = \<lparr> success = False, data = None,
       error = Some (if msg = [] then ''An unknown error occurred'' else msg),
       statusCode = Some 500, errorCode = Some ''ERR_UNKNOWN'', api_headers = None \<rparr>"
  by (simp add: catch_envelope_def Error_def response_status_def)

lemma run_pair: "f = (fst f, snd f)"
  by simp

subsection \<open>A call in terms of its inputs\<close>

lemma request_interceptor_throws:
  assumes "sessionStorage_getItem env = Inl msg"
  shows "request_interceptor this px env w c
         = (Inl (Error msg), console_error ''Error in request interceptor:'' (Error msg) w)"
  using assms by (simp add: request_interceptor_def)

lemma request_interceptor_passes:
  assumes tok: "sessionStorage_getItem env = Inr tok"
  shows "\<exists>c1 w1. request_interceptor this px env w c = (Inr c1, w1)
           \<and> globalConfig w1 = globalConfig w \<and> console w1 = console w
           \<and> location_assign w1 = location_assign w \<and> sent w1 = sent w
           \<and> (\<forall>i. (requestKeys w1 i \<noteq> None)
                   = (isProd (this_config this) \<and> i = ident c \<or> requestKeys w i \<noteq> None))"
  using tok
  by (auto simp: request_interceptor_def Let_def handleProductionSecurity_def split: prod.splits)

lemma response_rejected_no_response:
  assumes "response e = None"
  shows "response_rejected this px env w e = (e, recordMetrics env (failure_metric this env e) w)"
  using assms by (simp add: response_rejected_def redirect_on_status_def)

lemma response_fulfilled_decoded:
  assumes G: "globalConfig w2 = globalConfig w"
    and K: "\<forall>i. (requestKeys w2 i \<noteq> None)
                 = (isProd (this_config this) \<and> i = fresh_ident env \<or> requestKeys w i \<noteq> None)"
  shows "fst (response_fulfilled this px env w2 r)
         = (case decoded_body this px env w r of
              Inl m \<Rightarrow> Inl (Error m)
            | Inr d \<Rightarrow> Inr (r\<lparr> res_data := d \<rparr>))"
    and "aborts_logged (snd (response_fulfilled this px env w2 r))
         = aborts_logged w2 + (case decoded_body this px env w r of Inl m \<Rightarrow> 1 | Inr d \<Rightarrow> 0)"
proof -
  have dec: "(isProd (this_config this) \<and> requestKeys w2 (ident (res_config r)) \<noteq> None
              \<and> truthy (res_data r) \<and> typeof_string (res_data r))
             = must_decrypt this env w (ident (res_config r)) (res_data r)"
    using K by (auto simp: must_decrypt_def keys_known_def)
  show "fst (response_fulfilled this px env w2 r)
         = (case decoded_body this px env w r of
              Inl m \<Rightarrow> Inl (Error m)
            | Inr d \<Rightarrow> Inr (r\<lparr> res_data := d \<rparr>))"
    unfolding response_fulfilled_def decoded_body_def dec G
    by (simp split: sum.splits)
  show "aborts_logged (snd (response_fulfilled this px env w2 r))
         = aborts_logged w2 + (case decoded_body this px env w r of Inl m \<Rightarrow> 1 | Inr d \<Rightarrow> 0)"
    unfolding response_fulfilled_def decoded_body_def dec G
    by (simp split: sum.splits)
qed

lemma response_rejected_decrypts:
  assumes G: "globalConfig w2 = globalConfig w"
    and K: "\<forall>i. (requestKeys w2 i \<noteq> None)
                 = (isProd (this_config this) \<and> i = fresh_ident env \<or> requestKeys w i \<noteq> None)"
    and ok: "error_body_decrypts this px env w e"
  shows "aborts_logged (snd (response_rejected this px env w2 e)) = aborts_logged w2"
    and "logged ''Error decrypting error response data:'' (snd (response_rejected this px env w2 e))
         = logged ''Error decrypting error response data:'' w2"
proof -
  have dec: "(isProd (this_config this) \<and> truthy (res_data r)
              \<and> requestKeys w2 (ident c) \<noteq> None \<and> typeof_string (res_data r))
             = must_decrypt this env w (ident c) (res_data r)" for r c
    using K by (auto simp: must_decrypt_def keys_known_def)
  show "aborts_logged (snd (response_rejected this px env w2 e)) = aborts_logged w2"
    using ok unfolding response_rejected_def error_body_decrypts_def dec G
    by (simp split: option.splits sum.splits if_splits)
  show "logged ''Error decrypting error response data:'' (snd (response_rejected this px env w2 e))
         = logged ''Error decrypting error response data:'' w2"
    using ok unfolding response_rejected_def error_body_decrypts_def dec G
    by (simp split: option.splits sum.splits if_splits)
qed

lemma client_request_throws:
  assumes "sessionStorage_getItem env = Inl msg"
  shows "client_request this px env w c
         = (Inl (Error msg),
            recordMetrics env (failure_metric this env (Error msg))
              (console_error ''Error in request interceptor:'' (Error msg) w))"
  using assms
  by (simp add: client_request_def request_interceptor_throws response_rejected_no_response Error_def)

lemma client_request_passes:
  assumes tok: "sessionStorage_getItem env = Inr tok" and fresh: "ident c = fresh_ident env"
  shows "\<exists>w2. globalConfig w2 = globalConfig w \<and> console w2 = console w
           \<and> location_assign w2 = location_assign w \<and> sent w2 \<noteq> sent w
           \<and> (\<forall>i. (requestKeys w2 i \<noteq> None)
                   = (isProd (this_config this) \<and> i = fresh_ident env \<or> requestKeys w i \<noteq> None))
           \<and> client_request this px env w c
             = (case adapter_result env of
                  Inl e \<Rightarrow> (Inl (fst (response_rejected this px env w2 e)),
                             snd (response_rejected this px env w2 e))
                | Inr r \<Rightarrow> response_fulfilled this px env w2 r)"
proof -
  from request_interceptor_passes [OF tok, where this = this and px = px and w = w and c = c] obtain c1 w1 where
    ri: "request_interceptor this px env w c = (Inr c1, w1)"
    and fr: "globalConfig w1 = globalConfig w" "console w1 = console w"
      "location_assign w1 = location_assign w" "sent w1 = sent w"
    and keys: "\<forall>i. (requestKeys w1 i \<noteq> None)
                 = (isProd (this_config this) \<and> i = ident c \<or> requestKeys w i \<noteq> None)"
    by blast
  define w2 where
    "w2 = w1\<lparr> sent := sent w1 @ [c1\<lparr> req_data := transformRequest this px (req_data c1) \<rparr>] \<rparr>"
  have "globalConfig w2 = globalConfig w" "console w2 = console w"
    "location_assign w2 = location_assign w" "sent w2 \<noteq> sent w"
    "\<forall>i. (requestKeys w2 i \<noteq> None)
         = (isProd (this_config this) \<and> i = fresh_ident env \<or> requestKeys w i \<noteq> None)"
    using fr keys fresh by (simp_all add: w2_def)
  moreover have "client_request this px env w c
        = (case adapter_result env of
             Inl e \<Rightarrow> (Inl (fst (response_rejected this px env w2 e)),
                        snd (response_rejected this px env w2 e))
           | Inr r \<Rightarrow> response_fulfilled this px env w2 r)"
    using ri by (simp add: client_request_def w2_def split: sum.splits)
  ultimately show ?thesis by blast
qed

lemma console_obs:
  assumes "console w2 = console w"
  shows "aborts_logged w2 = aborts_logged w" and "metrics_emitted w2 = metrics_emitted w"
    and "logged l w2 = logged l w"
  using assms by (simp_all add: aborts_logged_def metrics_emitted_def logged_def)

lemma client_request_readable:
  assumes fresh: "ident c = fresh_ident env"
    and ok: "body_readable this px env w"
  shows "aborts_logged (snd (client_request this px env w c)) = aborts_logged w"
proof (cases "sessionStorage_getItem env")
  case (Inl msg)
  then show ?thesis
    by (simp add: client_request_throws)
next
  case (Inr tok)
  from client_request_passes [OF Inr fresh, where this = this and px = px and w = w] obtain w2 where
    G: "globalConfig w2 = globalConfig w" and con: "console w2 = console w"
    and K: "\<forall>i. (requestKeys w2 i \<noteq> None)
                 = (isProd (this_config this) \<and> i = fresh_ident env \<or> requestKeys w i \<noteq> None)"
    and cr: "client_request this px env w c
             = (case adapter_result env of
                  Inl e \<Rightarrow> (Inl (fst (response_rejected this px env w2 e)),
                             snd (response_rejected this px env w2 e))
                | Inr r \<Rightarrow> response_fulfilled this px env w2 r)"
    by blast
  show ?thesis
  proof (cases "adapter_result env")
    case (Inl e)
    with ok Inr have "error_body_decrypts this px env w e"
      by (simp add: body_readable_def)
    from response_rejected_decrypts(1) [OF G K this] Inl show ?thesis
      by (simp add: cr console_obs [OF con])
  next
    case r: (Inr r)
    with ok Inr obtain d where "decoded_body this px env w r = Inr d"
      by (auto simp: body_readable_def split: sum.splits)
    with response_fulfilled_decoded(2) [OF G K, where px = px and r = r] r show ?thesis
      by (simp add: cr console_obs [OF con])
  qed
qed

lemma client_request_outcome:
  assumes tok: "sessionStorage_getItem env = Inr tok" and fresh: "ident c = fresh_ident env"
  shows "adapter_result env = Inl e \<Longrightarrow> \<exists>e'. fst (client_request this px env w c) = Inl e'"
    and "adapter_result env = Inr r \<Longrightarrow>
           fst (client_request this px env w c)
           = (case decoded_body this px env w r of
                Inl m \<Rightarrow> Inl (Error m)
              | Inr d \<Rightarrow> Inr (r\<lparr> res_data := d \<rparr>))"
proof -
  from client_request_passes [OF tok fresh, where this = this and px = px and w = w] obtain w2 where
    G: "globalConfig w2 = globalConfig w"
    and K: "\<forall>i. (requestKeys w2 i \<noteq> None)
                 = (isProd (this_config this) \<and> i = fresh_ident env \<or> requestKeys w i \<noteq> None)"
    and cr: "client_request this px env w c
             = (case adapter_result env of
                  Inl e \<Rightarrow> (Inl (fst (response_rejected this px env w2 e)),
                             snd (response_rejected this px env w2 e))
                | Inr r \<Rightarrow> response_fulfilled this px env w2 r)"
    by blast
  show "adapter_result env = Inl e \<Longrightarrow> \<exists>e'. fst (client_request this px env w c) = Inl e'"
    by (simp add: cr)
  show "adapter_result env = Inr r \<Longrightarrow>
           fst (client_request this px env w c)
           = (case decoded_body this px env w r of
                Inl m \<Rightarrow> Inl (Error m)
              | Inr d \<Rightarrow> Inr (r\<lparr> res_data := d \<rparr>))"
    using response_fulfilled_decoded(1) [OF G K, where px = px and r = r] by (simp add: cr)
qed

lemma client_request_sent:
  "(sent (snd (client_request this px env w c)) = sent w)
   = (\<exists>msg. sessionStorage_getItem env = Inl msg)"
proof (cases "sessionStorage_getItem env")
  case (Inl msg)
  then show ?thesis
    by (simp add: client_request_throws)
next
  case (Inr tok)
  from request_interceptor_passes [OF Inr, where this = this and px = px and w = w and c = c] obtain c1 w1 where
    ri: "request_interceptor this px env w c = (Inr c1, w1)" and s: "sent w1 = sent w"
    by blast
  then show ?thesis
    using Inr
    by (simp add: client_request_def response_rejected_frame response_fulfilled_frame
        split: sum.splits)
qed

text \<open>Each of the six methods is one request through the client, wrapped in an envelope.\<close>

lemma perform_via_client:
  assumes reach: "reaches_client (globalConfig w) call"
  shows "\<exists>c. ident c = fresh_ident env
           \<and> snd (perform this px env w call) = snd (client_request this px env w c)
           \<and> fst (perform this px env w call)
             = (case fst (client_request this px env w c) of
                  Inl e \<Rightarrow> catch_envelope e
                | Inr resp \<Rightarrow>
                    if is_graphql call
                    then (case data_of (res_data resp) of
                            Inl m \<Rightarrow> catch_envelope (Error m)
                          | Inr d \<Rightarrow> success_envelope resp d)
                    else success_envelope resp (res_data resp))"
proof -
  have verb: "\<exists>c. ident c = fresh_ident env
           \<and> snd (request_verb m this px env w u d cfg) = snd (client_request this px env w c)
           \<and> fst (request_verb m this px env w u d cfg)
             = (case fst (client_request this px env w c) of
                  Inl e \<Rightarrow> catch_envelope e
                | Inr resp \<Rightarrow> success_envelope resp (res_data resp))" for m u d cfg
    by (rule exI [of _ "axios_config this env m (constructUrl px u (queryParams cfg)) d
                          (rc_isGraphQL cfg) cfg"])
       (simp add: request_verb_def axios_config_def split: prod.splits sum.splits)
  show ?thesis
  proof (cases call)
    case (Call_get u cfg)
    from verb [of "''get''" u JUndefined cfg] show ?thesis
      unfolding Call_get by (simp add: WebLattice_get_def cong: sum.case_cong)
  next
    case (Call_post u d cfg)
    from verb [of "''post''" u d cfg] show ?thesis
      unfolding Call_post by (simp add: WebLattice_post_def cong: sum.case_cong)
  next
    case (Call_put u d cfg)
    from verb [of "''put''" u d cfg] show ?thesis
      unfolding Call_put by (simp add: WebLattice_put_def cong: sum.case_cong)
  next
    case (Call_patch u d cfg)
    from verb [of "''patch''" u d cfg] show ?thesis
      unfolding Call_patch by (simp add: WebLattice_patch_def cong: sum.case_cong)
  next
    case (Call_delete u cfg)
    from verb [of "''delete''" u JUndefined cfg] show ?thesis
      unfolding Call_delete by (simp add: WebLattice_delete_def cong: sum.case_cong)
  next
    case (Call_graphql q v cfg)
    with reach have ep: "graphql_endpoint (globalConfig w) cfg \<noteq> []"
      by simp
    show ?thesis
      unfolding Call_graphql
      by (rule exI [of _ "axios_config this env ''post'' (graphql_endpoint (globalConfig w) cfg)
                            (JObj [(''query'', JStr q), (''variables'', v)]) (Some True) cfg"])
         (simp add: WebLattice_graphql_def ep axios_config_def cong: sum.case_cong
            split: prod.splits sum.splits)
  qed
qed

lemma perform_failure_status:
  "http_failure_status env w (snd (perform this px env w call))
   = failure_status (globalConfig w) env call"
proof (cases "reaches_client (globalConfig w) call")
  case False
  from perform_unreached [OF run_pair False] show ?thesis
    using False by (simp add: http_failure_status_def failure_status_def)
next
  case True
  from perform_via_client [OF True, where env = env and this = this and px = px] obtain c where
    "snd (perform this px env w call) = snd (client_request this px env w c)"
    by blast
  with client_request_sent [of this px env w c] True show ?thesis
    by (auto simp: http_failure_status_def failure_status_def split: sum.splits)
qed

section \<open>The claims\<close>

text \<open>
  C1 (as amended).  Whenever encryption is disabled in the global configuration, or no
  non-empty secret key is configured there, \<open>encryptData(P)\<close> is exactly
  \<open>JSON.stringify(P)\<close>; whenever it is enabled with a non-empty key \<open>K\<close>, \<open>encryptData(P)\<close>
  is the AES ciphertext of \<open>JSON.stringify(P)\<close> under \<open>K\<close>.  The environment plays no part:
  changing it changes nothing.
\<close>

theorem encryptData_passthrough:
  "(rd (encryption g) = None
    \<or> (\<exists>e. rd (encryption g) = Some e
           \<and> (\<not> enabled e \<or> secretKey e = None \<or> secretKey e = Some []))
    \<longrightarrow> encryptData px g P = JSON_stringify px P)
   \<and> (rd (encryption g) = Some e' \<and> enabled e' \<and> secretKey e' = Some K \<and> K \<noteq> []
        \<longrightarrow> encryptData px g P = AES_encrypt px (JSON_stringify px P) K)
   \<and> encryptData px (g\<lparr> environment := x \<rparr>) P = encryptData px g P"
  by (auto simp: encryptData_def encryption_off_def configured_key_def)

theorem encryptData_passthrough_witness:
  "encryptData toy initial_globalConfig (JStr ''hi'') = JSON_stringify toy (JStr ''hi'')
   \<and> encryptData toy dev_keyed_config JNull = AES_encrypt toy (JSON_stringify toy JNull) ''k''
   \<and> encryptData toy (dev_keyed_config\<lparr> environment := Value Env_PROD \<rparr>) JNull
     = encryptData toy dev_keyed_config JNull"
  using encryptData_passthrough [of initial_globalConfig toy "JStr ''hi''"]
    encryptData_passthrough
      [of dev_keyed_config toy JNull
          "\<lparr> enabled = True, secretKey = Some ''k'', useRemoteKeys = None \<rparr>" "''k''"
          "Value Env_PROD"]
  by (simp add: initial_globalConfig_def dev_keyed_config_def)

text \<open>
  C1 as stated fails: with encryption enabled, a key configured and the environment DEV,
  \<open>encryptData\<close> returns the ciphertext, not the JSON text.
\<close>

theorem encryptData_ignores_environment:
  "rd (environment dev_keyed_config) \<noteq> Some Env_PROD
   \<and> encryptData toy dev_keyed_config JNull \<noteq> JSON_stringify toy JNull"
  by (simp add: dev_keyed_config_def encryptData_def encryption_off_def configured_key_def
      toy_def toy_stringify_def)

text \<open>
  C2 (as amended).  Every call through any of the methods that reaches the client instance,
  and whose answer the response interceptor can read (the cipher accepts the body where it
  must be decrypted and, for a fulfilled response, the plain text is JSON), writes exactly
  one metric record to the console when the global configuration has metrics enabled with
  \<open>logToConsole\<close> set, and none otherwise; this is so whether the call succeeds or fails.
\<close>

theorem metrics_per_call:
  assumes reach: "reaches_client (globalConfig w) call"
    and readable: "body_readable this px env w"
  shows "metrics_emitted (snd (perform this px env w call))
         = metrics_emitted w + (if metrics_on (globalConfig w) then 1 else 0)"
proof -
  from perform_via_client [OF reach, where env = env and this = this and px = px] obtain c where
    fresh: "ident c = fresh_ident env"
    and w': "snd (perform this px env w call) = snd (client_request this px env w c)"
    by blast
  from client_request_readable [OF fresh readable]
  have "aborts_logged (snd (client_request this px env w c)) = aborts_logged w" .
  from client_request_metrics [OF run_pair this] show ?thesis
    by (simp add: w')
qed

theorem metrics_per_call_witness:
  "metrics_emitted (snd (perform dev_client toy env_200 dev_world (Call_get ''/users'' no_options)))
   = metrics_emitted dev_world + 1
   \<and> metrics_emitted
        (snd (perform prod_client toy env_401_html prod_world (Call_get ''/users'' no_options)))
     = metrics_emitted prod_world + 1"
proof -
  have reach: "reaches_client (globalConfig dev_world) (Call_get ''/users'' no_options)"
    "reaches_client (globalConfig prod_world) (Call_get ''/users'' no_options)"
    by simp_all
  have readable: "body_readable dev_client toy env_200 dev_world"
    "body_readable prod_client toy env_401_html prod_world"
    by (simp_all add: model_defs example_defs)
  have on: "metrics_on (globalConfig dev_world)" "metrics_on (globalConfig prod_world)"
    by (simp_all add: model_defs example_defs)
  have traced: "metrics_emitted
        (snd (perform dev_client toy env_200 dev_world (Call_get ''/users'' no_options))) = 1"
    by (simp add: model_defs example_defs)
  from metrics_per_call [OF reach(1) readable(1)] metrics_per_call [OF reach(2) readable(2)] on
    traced
  show ?thesis
    by simp
qed

text \<open>
  C2 as stated fails, each time with metrics enabled: without \<open>logToConsole\<close> nothing is
  written; \<open>graphql\<close> without an endpoint fails before any request; a 200 response whose
  decrypted body is not JSON is rejected before the record is made; and a 401 response
  whose body the cipher rejects leaves the error handler before the record is made.
\<close>

theorem metrics_not_always_emitted:
  "map_option metrics_enabled (rd (metrics (globalConfig unlogged_world))) = Some True
   \<and> metrics_emitted
        (snd (perform unlogged_client toy env_200 unlogged_world (Call_get ''/users'' no_options)))
      = metrics_emitted unlogged_world
   \<and> metrics_on (globalConfig dev_world)
   \<and> metrics_emitted
        (snd (perform dev_client toy env_200 dev_world (Call_graphql ''{ me }'' JUndefined no_options)))
      = metrics_emitted dev_world
   \<and> metrics_on (globalConfig prod_world)
   \<and> metrics_emitted
        (snd (perform prod_client toy env_200_html prod_world (Call_get ''/users'' no_options)))
      = metrics_emitted prod_world
   \<and> metrics_emitted
        (snd (perform prod_client toy env_401 prod_world (Call_get ''/users'' no_options)))
      = metrics_emitted prod_world"
  by (simp add: model_defs example_defs)

lemma response_fulfilled_no_decrypt_label:
  "logged ''Error decrypting error response data:'' (snd (response_fulfilled this px env w r))
   = logged ''Error decrypting error response data:'' w"
  by (simp add: response_fulfilled_def split: sum.splits)

text \<open>
  Where the cipher accepts the body of the error response, the redirects are the ones the
  status asks for: once to \<open>/enter-email\<close> for 401, once to \<open>/generic-error\<close> for a status
  in [500, 600), none otherwise.
\<close>

lemma redirect_when_error_body_decrypts:
  assumes ok: "\<forall>e. adapter_result env = Inl e \<longrightarrow> error_body_decrypts this px env w e"
  shows "location_assign (snd (perform this px env w call))
         = location_assign w @ expected_redirects (failure_status (globalConfig w) env call)"
proof (cases "reaches_client (globalConfig w) call")
  case False
  from perform_unreached [OF run_pair False] False show ?thesis
    by (simp add: failure_status_def expected_redirects_def)
next
  case True
  from perform_via_client [OF True, where env = env and this = this and px = px] obtain c where
    fresh: "ident c = fresh_ident env"
    and w': "snd (perform this px env w call) = snd (client_request this px env w c)"
    by blast
  have quiet: "logged ''Error decrypting error response data:'' (snd (client_request this px env w c))
               = logged ''Error decrypting error response data:'' w"
  proof (cases "sessionStorage_getItem env")
    case (Inl msg)
    then show ?thesis
      by (simp add: client_request_throws)
  next
    case (Inr tok)
    from client_request_passes [OF Inr fresh, where this = this and px = px and w = w]
    obtain w2 where
      G: "globalConfig w2 = globalConfig w" and con: "console w2 = console w"
      and K: "\<forall>i. (requestKeys w2 i \<noteq> None)
                   = (isProd (this_config this) \<and> i = fresh_ident env \<or> requestKeys w i \<noteq> None)"
      and cr: "client_request this px env w c
               = (case adapter_result env of
                    Inl e \<Rightarrow> (Inl (fst (response_rejected this px env w2 e)),
                               snd (response_rejected this px env w2 e))
                  | Inr r \<Rightarrow> response_fulfilled this px env w2 r)"
      by blast
    show ?thesis
    proof (cases "adapter_result env")
      case (Inl e)
      with ok have "error_body_decrypts this px env w e"
        by simp
      from response_rejected_decrypts(2) [OF G K this] Inl show ?thesis
        by (simp add: cr console_obs [OF con])
    next
      case r: (Inr r)
      then show ?thesis
        by (simp add: cr response_fulfilled_no_decrypt_label console_obs [OF con])
    qed
  qed
  from client_request_redirect [OF run_pair quiet] show ?thesis
    by (simp add: w' [symmetric] perform_failure_status)
qed

text \<open>
  C3.  The claim does not hold of the code.  A production client with encryption receives a
  401 whose body the cipher rejects: the call fails with status 401, for which the claim
  asks one redirect to \<open>/enter-email\<close>, and the code requests none.
\<close>

theorem redirect_skipped_on_decrypt_error:
  "failure_status (globalConfig prod_world) env_401 (Call_get ''/users'' no_options) = Some 401
   \<and> statusCode (fst (perform prod_client toy env_401 prod_world (Call_get ''/users'' no_options)))
      = Some 401
   \<and> expected_redirects (Some 401) = [''/enter-email'']
   \<and> location_assign (snd (perform prod_client toy env_401 prod_world (Call_get ''/users'' no_options)))
      = location_assign prod_world"
  by (simp add: model_defs example_defs)

text \<open>
  C4.  With encryption enabled and a non-empty secret key \<open>K\<close> configured, in the PROD
  environment, and an AES primitive whose decryption undoes its encryption under \<open>K\<close>,
  \<open>decryptData(encryptData(P))\<close> is \<open>JSON.stringify(P)\<close>.
\<close>

theorem decryptData_encryptData_roundtrip:
  assumes "rd (encryption g) = Some e" and "enabled e" and "secretKey e = Some K" and "K \<noteq> []"
    and "rd (environment g) = Some Env_PROD"
    and "\<forall>x. AES_decrypt px (AES_encrypt px x K) K = Inr x"
  shows "decryptData px g (encryptData px g P) = Inr (JSON_stringify px P)"
  using assms by (simp add: decryptData_def encryptData_def encryption_off_def configured_key_def)

theorem decryptData_encryptData_roundtrip_witness:
  "decryptData toy prod_keyed_config (encryptData toy prod_keyed_config (JStr ''hi''))
     = Inr (JSON_stringify toy (JStr ''hi''))"
proof -
  have aes: "\<forall>x. AES_decrypt toy (AES_encrypt toy x ''k'') ''k'' = Inr x"
    by (simp add: toy_def toy_decrypt_def)
  show ?thesis
    by (rule decryptData_encryptData_roundtrip
          [where e = "\<lparr> enabled = True, secretKey = Some ''k'', useRemoteKeys = Some False \<rparr>"
             and K = "''k''", OF _ _ _ _ _ aes])
       (simp_all add: prod_keyed_config_def)
qed

lemma data_of_throws: "(\<exists>m. data_of d = Inl m) = (d = JUndefined \<or> d = JNull)"
  by (cases d) (simp_all add: data_of_def)

text \<open>
  C5 (as amended).  Every call through any of the six methods returns an envelope, and the
  envelope says \<open>success = false\<close> exactly when the call fails: no GraphQL endpoint, a throw
  in the request interceptor, a rejection by the transport (transport error or HTTP
  error), a body of a fulfilled response that cannot be decrypted or parsed, or, for
  \<open>graphql\<close>, a body whose \<open>data\<close> cannot be read.  A failure envelope has no data, a
  non-empty error message, the status code of the response attached to the transport's
  error when that status is not 0, and 500 otherwise, and the error code \<open>ERR_\<close> followed
  by that status, or \<open>ERR_UNKNOWN\<close> where the status code is the default.
\<close>

theorem failure_envelope:
  assumes run: "perform this px env w call = (r, w')"
  shows "success r = (\<not> call_fails this px env w call)
       \<and> (call_fails this px env w call \<longrightarrow>
            data r = None
            \<and> (\<exists>msg. msg \<noteq> [] \<and> error r = Some msg)
            \<and> statusCode r
              = Some (case failure_status (globalConfig w) env call of
                        None \<Rightarrow> 500
                      | Some s \<Rightarrow> if s = 0 then 500 else s)
            \<and> errorCode r
              = Some (''ERR_'' @ (case failure_status (globalConfig w) env call of
                                    None \<Rightarrow> ''UNKNOWN''
                                  | Some s \<Rightarrow> if s = 0 then ''UNKNOWN'' else decimal s)))"
proof -
  from run have r: "r = fst (perform this px env w call)"
    and w': "w' = snd (perform this px env w call)"
    by simp_all
  have "success (fst (perform this px env w call)) = (\<not> call_fails this px env w call)"
  proof (cases "reaches_client (globalConfig w) call")
    case False
    from perform_unreached [OF run_pair False] False show ?thesis
      by (simp add: call_fails_def catch_envelope_def)
  next
    case True
    from perform_via_client [OF True, where env = env and this = this and px = px] obtain c where
      fresh: "ident c = fresh_ident env"
      and r: "fst (perform this px env w call)
              = (case fst (client_request this px env w c) of
                   Inl e \<Rightarrow> catch_envelope e
                 | Inr resp \<Rightarrow>
                     if is_graphql call
                     then (case data_of (res_data resp) of
                             Inl m \<Rightarrow> catch_envelope (Error m)
                           | Inr d \<Rightarrow> success_envelope resp d)
                     else success_envelope resp (res_data resp))"
      by blast
    show ?thesis
    proof (cases "sessionStorage_getItem env")
      case (Inl msg)
      with True show ?thesis
        by (simp add: r client_request_throws call_fails_def catch_envelope_def)
    next
      case (Inr tok)
      note out = client_request_outcome [OF Inr fresh, where this = this and px = px and w = w]
      show ?thesis
      proof (cases "adapter_result env")
        case (Inl e)
        from out(1) [OF Inl] obtain e' where "fst (client_request this px env w c) = Inl e'" ..
        with True Inr Inl show ?thesis
          by (simp add: r call_fails_def catch_envelope_def)
      next
        case resp: (Inr r0)
        show ?thesis
        proof (cases "decoded_body this px env w r0")
          case (Inl m)
          with out(2) [OF resp] True Inr resp show ?thesis
            by (simp add: r call_fails_def catch_envelope_def)
        next
          case d: (Inr d)
          from out(2) [OF resp] d
          have cr: "fst (client_request this px env w c) = Inr (r0\<lparr> res_data := d \<rparr>)"
            by simp
          show ?thesis
          proof (cases "is_graphql call")
            case False
            with True Inr resp d show ?thesis
              by (simp add: r cr call_fails_def success_envelope_def)
          next
            case g: True
            show ?thesis
            proof (cases "data_of d")
              case (Inl m)
              with data_of_throws [of d] have "d = JUndefined \<or> d = JNull"
                by blast
              with True Inr resp d g Inl show ?thesis
                by (simp add: r cr call_fails_def catch_envelope_def)
            next
              case v: (Inr v)
              with data_of_throws [of d] have "\<not> (d = JUndefined \<or> d = JNull)"
                by auto
              with True Inr resp d g v show ?thesis
                by (simp add: r cr call_fails_def success_envelope_def)
            qed
          qed
        qed
      qed
    qed
  qed
  then have iff: "success r = (\<not> call_fails this px env w call)"
    by (simp add: r)
  have st: "http_failure_status env w w' = failure_status (globalConfig w) env call"
    by (simp add: w' perform_failure_status)
  have fields: "data r = None
            \<and> (\<exists>msg. msg \<noteq> [] \<and> error r = Some msg)
            \<and> statusCode r
              = Some (case http_failure_status env w w' of
                        None \<Rightarrow> 500
                      | Some s \<Rightarrow> if s = 0 then 500 else s)
            \<and> errorCode r
              = Some (''ERR_'' @ (case http_failure_status env w w' of
                                    None \<Rightarrow> ''UNKNOWN''
                                  | Some s \<Rightarrow> if s = 0 then ''UNKNOWN'' else decimal s))"
    if failed: "\<not> success r"
  proof (cases "reaches_client (globalConfig w) call")
    case False
    from perform_unreached [OF run False] show ?thesis
      by (simp add: http_failure_status_def catch_envelope_Error)
  next
    case True
    from perform_shape [OF run True] obtain c where
      "(\<exists>e. client_request this px env w c = (Inl e, w') \<and> r = catch_envelope e)
       \<or> (\<exists>resp. client_request this px env w c = (Inr resp, w')
              \<and> (success r \<or> (\<exists>msg. r = catch_envelope (Error msg))))"
      by blast
    then show ?thesis
    proof
      assume "\<exists>e. client_request this px env w c = (Inl e, w') \<and> r = catch_envelope e"
      then obtain e where cr: "client_request this px env w c = (Inl e, w')"
        and re: "r = catch_envelope e"
        by blast
      from client_request_error_status [OF cr] re show ?thesis
        by (auto simp: catch_envelope_def split: option.splits)
    next
      assume "\<exists>resp. client_request this px env w c = (Inr resp, w')
                \<and> (success r \<or> (\<exists>msg. r = catch_envelope (Error msg)))"
      with failed obtain resp msg where cr: "client_request this px env w c = (Inr resp, w')"
        and re: "r = catch_envelope (Error msg)"
        by blast
      from client_request_fulfilled(1) [OF cr] re show ?thesis
        by (simp add: catch_envelope_Error)
    qed
  qed
  from iff fields st show ?thesis
    by simp
qed

theorem failure_envelope_witness:
  "\<not> success (fst (perform dev_client toy env_401 dev_world (Call_get ''/users'' no_options)))
   \<and> error (fst (perform dev_client toy env_401 dev_world (Call_get ''/users'' no_options))) \<noteq> None
   \<and> statusCode (fst (perform dev_client toy env_401 dev_world (Call_get ''/users'' no_options)))
      = Some 401
   \<and> errorCode (fst (perform dev_client toy env_401 dev_world (Call_get ''/users'' no_options)))
      = Some ''ERR_401''
   \<and> \<not> success (fst (perform dev_client toy env_200_empty dev_world
                       (Call_graphql ''{ me }'' JUndefined graphql_options)))
   \<and> success (fst (perform dev_client toy env_200 dev_world (Call_get ''/users'' no_options)))"
proof -
  have fails: "call_fails dev_client toy env_401 dev_world (Call_get ''/users'' no_options)"
    "call_fails dev_client toy env_200_empty dev_world
       (Call_graphql ''{ me }'' JUndefined graphql_options)"
    "\<not> call_fails dev_client toy env_200 dev_world (Call_get ''/users'' no_options)"
    by (simp_all add: model_defs example_defs)
  have st: "failure_status (globalConfig dev_world) env_401 (Call_get ''/users'' no_options)
            = Some 401"
    by (simp add: model_defs example_defs)
  have dec: "decimal 401 = ''401''"
    by (simp add: decimal.simps digit_char_def)
  from failure_envelope [OF run_pair,
      of dev_client toy env_401 dev_world "Call_get ''/users'' no_options"] fails(1) st dec
  have one: "\<not> success (fst (perform dev_client toy env_401 dev_world (Call_get ''/users'' no_options)))
   \<and> error (fst (perform dev_client toy env_401 dev_world (Call_get ''/users'' no_options))) \<noteq> None
   \<and> statusCode (fst (perform dev_client toy env_401 dev_world (Call_get ''/users'' no_options)))
      = Some 401
   \<and> errorCode (fst (perform dev_client toy env_401 dev_world (Call_get ''/users'' no_options)))
      = Some ''ERR_401''"
    by auto
  from failure_envelope [OF run_pair,
      of dev_client toy env_200_empty dev_world "Call_graphql ''{ me }'' JUndefined graphql_options"]
    fails(2)
  have two: "\<not> success (fst (perform dev_client toy env_200_empty dev_world
                       (Call_graphql ''{ me }'' JUndefined graphql_options)))"
    by blast
  from failure_envelope [OF run_pair,
      of dev_client toy env_200 dev_world "Call_get ''/users'' no_options"] fails(3)
  have three: "success (fst (perform dev_client toy env_200 dev_world (Call_get ''/users'' no_options)))"
    by blast
  have traced: "\<not> success (fst (perform prod_client toy env_200_rejected prod_world
                                  (Call_get ''/users'' no_options)))"
    "\<not> success (fst (perform prod_client toy env_200_html prod_world
                        (Call_get ''/users'' no_options)))"
    "\<not> success (fst (perform dev_client toy env_200_empty dev_world
                        (Call_graphql ''{ me }'' JUndefined graphql_options)))"
    by (simp_all add: model_defs example_defs)
  from one two three traced show ?thesis
    by blast
qed

text \<open>
  C5 as stated fails.  An error whose response has the status 0 gives the status code 500
  and \<open>ERR_UNKNOWN\<close>, though a response status is there; and a 200 response whose decrypted
  body is not JSON gives the status code 500, since the parse error carries no response.
\<close>

theorem status_zero_reported_as_500:
  "map_option status (response error_0) = Some 0
   \<and> adapter_result env_0 = Inl error_0
   \<and> statusCode (fst (perform dev_client toy env_0 dev_world (Call_get ''/users'' no_options)))
      = Some 500
   \<and> errorCode (fst (perform dev_client toy env_0 dev_world (Call_get ''/users'' no_options)))
      = Some ''ERR_UNKNOWN''
   \<and> map_sum id status (adapter_result env_200_html) = Inr 200
   \<and> statusCode (fst (perform prod_client toy env_200_html prod_world (Call_get ''/users'' no_options)))
      = Some 500"
  by (simp add: model_defs example_defs)

lemma unparsable_success_body:
  assumes prod: "isProd (this_config this)"
    and tok: "sessionStorage_getItem env = Inr tok"
    and body: "s \<noteq> []"
    and dec: "decryptData px (globalConfig w) s = Inr plain"
    and bad: "JSON_parse px plain = Inl msg"
    and ans: "adapter_result env = Inr r" "res_data r = JStr s" "ident (res_config r) = ident c"
  shows "\<exists>w2. client_request this px env w c
           = (Inl (Error msg), console_error ''Error parsing decrypted JSON:'' (Error msg) w2)
         \<and> console w2 = console w"
proof -
  from request_interceptor_ok [OF tok, of this px w c] prod obtain c1 w1 where
    ri: "request_interceptor this px env w c = (Inr c1, w1)"
    and g: "globalConfig w1 = globalConfig w" and con: "console w1 = console w"
    and keys: "requestKeys w1 (ident c) \<noteq> None"
    by blast
  define w2 where
    "w2 = w1\<lparr> sent := sent w1 @ [c1\<lparr> req_data := transformRequest this px (req_data c1) \<rparr>] \<rparr>"
  have w2: "globalConfig w2 = globalConfig w" "console w2 = console w"
    "requestKeys w2 (ident c) \<noteq> None"
    using g con keys by (simp_all add: w2_def)
  have "client_request this px env w c = response_fulfilled this px env w2 r"
    using ri ans by (simp add: client_request_def w2_def)
  moreover have "response_fulfilled this px env w2 r
        = (Inl (Error msg), console_error ''Error parsing decrypted JSON:'' (Error msg) w2)"
    using ans prod body dec bad w2 by (simp add: response_fulfilled_def)
  ultimately have "client_request this px env w c
        = (Inl (Error msg), console_error ''Error parsing decrypted JSON:'' (Error msg) w2)"
    by simp
  with w2(2) show ?thesis
    by blast
qed

lemma unparsable_error_body:
  assumes prod: "isProd (this_config this)"
    and tok: "sessionStorage_getItem env = Inr tok"
    and body: "s \<noteq> []"
    and dec: "decryptData px (globalConfig w) s = Inr plain"
    and bad: "JSON_parse px plain = Inl msg"
    and ans: "adapter_result env = Inl e" "response e = Some r" "config e = Some c'"
      "res_data r = JStr s" "ident c' = ident c"
  shows "\<exists>w2. client_request this px env w c
           = (Inl e, redirect_on_status (Some (status r))
                       (recordMetrics env (failure_metric this env e)
                         (console_error ''Error parsing decrypted error JSON:'' (Error msg) w2)))
         \<and> console w2 = console w \<and> location_assign w2 = location_assign w
         \<and> globalConfig w2 = globalConfig w"
proof -
  from request_interceptor_ok [OF tok, of this px w c] prod obtain c1 w1 where
    ri: "request_interceptor this px env w c = (Inr c1, w1)"
    and g: "globalConfig w1 = globalConfig w" and con: "console w1 = console w"
    and loc: "location_assign w1 = location_assign w"
    and keys: "requestKeys w1 (ident c) \<noteq> None"
    by blast
  define w2 where
    "w2 = w1\<lparr> sent := sent w1 @ [c1\<lparr> req_data := transformRequest this px (req_data c1) \<rparr>] \<rparr>"
  have w2: "globalConfig w2 = globalConfig w" "console w2 = console w"
    "location_assign w2 = location_assign w" "requestKeys w2 (ident c) \<noteq> None"
    using g con loc keys by (simp_all add: w2_def)
  have "client_request this px env w c
        = (Inl (fst (response_rejected this px env w2 e)), snd (response_rejected this px env w2 e))"
    using ri ans by (simp add: client_request_def w2_def)
  moreover have "response_rejected this px env w2 e
        = (e, redirect_on_status (Some (status r))
                (recordMetrics env (failure_metric this env e)
                  (console_error ''Error parsing decrypted error JSON:'' (Error msg) w2)))"
    using ans prod body dec bad w2 by (simp add: response_rejected_def)
  ultimately have "client_request this px env w c
        = (Inl e, redirect_on_status (Some (status r))
                    (recordMetrics env (failure_metric this env e)
                      (console_error ''Error parsing decrypted error JSON:'' (Error msg) w2)))"
    by simp
  with w2(1,2,3) show ?thesis
    by blast
qed

text \<open>
  C6.  A production client with encryption receives a body that decrypts to text that is
  not JSON.  If the body came with a fulfilled response, the parse error is logged, the
  request is rejected with it, no metric is written, and the method called, whichever of
  the six it is, returns a failure envelope with the parse error's message, the status
  code 500 and \<open>ERR_UNKNOWN\<close>.  If the body came inside an error, the parse error is only
  logged: the request is rejected with the error as it was, body included, the metric is
  recorded and the redirect for the status is requested.
\<close>

theorem unparsable_body:
  assumes prod: "isProd (this_config this)"
    and tok: "sessionStorage_getItem env = Inr tok"
    and body: "s \<noteq> []"
    and dec: "decryptData px (globalConfig w) s = Inr plain"
    and bad: "JSON_parse px plain = Inl msg"
  shows "(adapter_result env = Inr r \<and> res_data r = JStr s \<and> ident (res_config r) = ident c \<longrightarrow>
            fst (client_request this px env w c)
              = Inl \<lparr> message = Some msg, response = None, config = None \<rparr>
            \<and> logged ''Error parsing decrypted JSON:'' (snd (client_request this px env w c))
                = logged ''Error parsing decrypted JSON:'' w + 1
            \<and> metrics_emitted (snd (client_request this px env w c)) = metrics_emitted w)
       \<and> (adapter_result env = Inr r \<and> res_data r = JStr s
              \<and> ident (res_config r) = fresh_ident env
              \<and> reaches_client (globalConfig w) call \<longrightarrow>
            fst (perform this px env w call)
              = \<lparr> success = False, data = None,
                  error = Some (if msg = [] then ''An unknown error occurred'' else msg),
                  statusCode = Some 500, errorCode = Some ''ERR_UNKNOWN'', api_headers = None \<rparr>
            \<and> metrics_emitted (snd (perform this px env w call)) = metrics_emitted w)
       \<and> (adapter_result env = Inl e \<and> response e = Some r' \<and> config e = Some c'
              \<and> res_data r' = JStr s \<and> ident c' = ident c \<longrightarrow>
            fst (client_request this px env w c) = Inl e
            \<and> logged ''Error parsing decrypted error JSON:'' (snd (client_request this px env w c))
                = logged ''Error parsing decrypted error JSON:'' w + 1
            \<and> metrics_emitted (snd (client_request this px env w c))
                = metrics_emitted w + (if metrics_on (globalConfig w) then 1 else 0)
            \<and> location_assign (snd (client_request this px env w c))
                = location_assign w @ expected_redirects (Some (status r')))"
proof (intro conjI impI)
  assume a: "adapter_result env = Inr r \<and> res_data r = JStr s \<and> ident (res_config r) = ident c"
  with unparsable_success_body [OF prod tok body dec bad, of r c] obtain w2 where
    cr: "client_request this px env w c
         = (Inl (Error msg), console_error ''Error parsing decrypted JSON:'' (Error msg) w2)"
    and con: "console w2 = console w"
    by blast
  note obs = console_obs [OF con]
  show "fst (client_request this px env w c) = Inl \<lparr> message = Some msg, response = None, config = None \<rparr>"
    by (simp add: cr Error_def)
  show "logged ''Error parsing decrypted JSON:'' (snd (client_request this px env w c))
        = logged ''Error parsing decrypted JSON:'' w + 1"
    by (simp add: cr obs)
  show "metrics_emitted (snd (client_request this px env w c)) = metrics_emitted w"
    by (simp add: cr obs)
next
  assume a: "adapter_result env = Inr r \<and> res_data r = JStr s
             \<and> ident (res_config r) = fresh_ident env \<and> reaches_client (globalConfig w) call"
  then have reach: "reaches_client (globalConfig w) call"
    by simp
  from perform_via_client [OF reach, where env = env and this = this and px = px] obtain c0 where
    fresh: "ident c0 = fresh_ident env"
    and w': "snd (perform this px env w call) = snd (client_request this px env w c0)"
    and r: "fst (perform this px env w call)
            = (case fst (client_request this px env w c0) of
                 Inl e \<Rightarrow> catch_envelope e
               | Inr resp \<Rightarrow>
                   if is_graphql call
                   then (case data_of (res_data resp) of
                           Inl m \<Rightarrow> catch_envelope (Error m)
                         | Inr d \<Rightarrow> success_envelope resp d)
                   else success_envelope resp (res_data resp))"
    by blast
  from a fresh unparsable_success_body [OF prod tok body dec bad, of r c0] obtain w2 where
    cr: "client_request this px env w c0
         = (Inl (Error msg), console_error ''Error parsing decrypted JSON:'' (Error msg) w2)"
    and con: "console w2 = console w"
    by auto
  show "fst (perform this px env w call)
        = \<lparr> success = False, data = None,
            error = Some (if msg = [] then ''An unknown error occurred'' else msg),
            statusCode = Some 500, errorCode = Some ''ERR_UNKNOWN'', api_headers = None \<rparr>"
    by (simp add: r cr catch_envelope_def Error_def response_status_def)
  show "metrics_emitted (snd (perform this px env w call)) = metrics_emitted w"
    by (simp add: w' cr console_obs [OF con])
next
  assume a: "adapter_result env = Inl e \<and> response e = Some r' \<and> config e = Some c'
             \<and> res_data r' = JStr s \<and> ident c' = ident c"
  with unparsable_error_body [OF prod tok body dec bad, of e r' c' c] obtain w2 where
    cr: "client_request this px env w c
         = (Inl e, redirect_on_status (Some (status r'))
                     (recordMetrics env (failure_metric this env e)
                       (console_error ''Error parsing decrypted error JSON:'' (Error msg) w2)))"
    and con: "console w2 = console w" and loc: "location_assign w2 = location_assign w"
    and g: "globalConfig w2 = globalConfig w"
    by blast
  note obs = console_obs [OF con]
  show "fst (client_request this px env w c) = Inl e"
    by (simp add: cr)
  show "logged ''Error parsing decrypted error JSON:'' (snd (client_request this px env w c))
        = logged ''Error parsing decrypted error JSON:'' w + 1"
    by (simp add: cr obs)
  show "metrics_emitted (snd (client_request this px env w c))
        = metrics_emitted w + (if metrics_on (globalConfig w) then 1 else 0)"
    by (simp add: cr obs g)
  show "location_assign (snd (client_request this px env w c))
        = location_assign w @ expected_redirects (Some (status r'))"
    by (simp add: cr loc)
qed

theorem unparsable_body_witness:
  "fst (perform prod_client toy env_200_html prod_world (Call_get ''/users'' no_options))
     = \<lparr> success = False, data = None, error = Some ''Unexpected token'',
         statusCode = Some 500, errorCode = Some ''ERR_UNKNOWN'', api_headers = None \<rparr>
   \<and> fst (perform prod_client toy env_200_html prod_world
            (Call_graphql ''{ me }'' JUndefined graphql_options))
     = \<lparr> success = False, data = None, error = Some ''Unexpected token'',
         statusCode = Some 500, errorCode = Some ''ERR_UNKNOWN'', api_headers = None \<rparr>
   \<and> fst (client_request prod_client toy env_401_html prod_world req7) = Inl error_401_html
   \<and> location_assign (snd (client_request prod_client toy env_401_html prod_world req7))
     = location_assign prod_world @ [''/enter-email'']"
proof -
  have prod: "isProd (this_config prod_client)"
    by (simp add: model_defs example_defs)
  have tok: "sessionStorage_getItem env_200_html = Inr None"
    "sessionStorage_getItem env_401_html = Inr None"
    by (simp_all add: example_defs)
  have body: "''k<html>'' \<noteq> []"
    by simp
  have dec: "decryptData toy (globalConfig prod_world) ''k<html>'' = Inr ''<html>''"
    by (simp add: model_defs example_defs)
  have bad: "JSON_parse toy ''<html>'' = Inl ''Unexpected token''"
    by (simp add: example_defs)
  have ok: "adapter_result env_200_html
              = Inr \<lparr> res_data = JStr ''k<html>'', status = 200, res_headers = [], res_config = req7 \<rparr>"
    "fresh_ident env_200_html = 7" "ident req7 = 7"
    by (simp_all add: example_defs)
  have reach: "reaches_client (globalConfig prod_world) (Call_get ''/users'' no_options)"
    "reaches_client (globalConfig prod_world) (Call_graphql ''{ me }'' JUndefined graphql_options)"
    by (simp_all add: graphql_endpoint_def graphql_options_def)
  have ko: "adapter_result env_401_html = Inl error_401_html"
    "response error_401_html
       = Some \<lparr> res_data = JStr ''k<html>'', status = 401, res_headers = [], res_config = req7 \<rparr>"
    "config error_401_html = Some req7"
    by (simp_all add: example_defs)
  from unparsable_body [OF prod tok(1) body dec bad,
      where r = "\<lparr> res_data = JStr ''k<html>'', status = 200, res_headers = [], res_config = req7 \<rparr>"
        and call = "Call_get ''/users'' no_options"] ok reach(1)
  have first: "fst (perform prod_client toy env_200_html prod_world (Call_get ''/users'' no_options))
     = \<lparr> success = False, data = None, error = Some ''Unexpected token'',
         statusCode = Some 500, errorCode = Some ''ERR_UNKNOWN'', api_headers = None \<rparr>"
    by simp
  from unparsable_body [OF prod tok(1) body dec bad,
      where r = "\<lparr> res_data = JStr ''k<html>'', status = 200, res_headers = [], res_config = req7 \<rparr>"
        and call = "Call_graphql ''{ me }'' JUndefined graphql_options"] ok reach(2)
  have second: "fst (perform prod_client toy env_200_html prod_world
            (Call_graphql ''{ me }'' JUndefined graphql_options))
     = \<lparr> success = False, data = None, error = Some ''Unexpected token'',
         statusCode = Some 500, errorCode = Some ''ERR_UNKNOWN'', api_headers = None \<rparr>"
    by simp
  from unparsable_body [OF prod tok(2) body dec bad,
      where e = error_401_html and c' = req7 and c = req7
        and r' = "\<lparr> res_data = JStr ''k<html>'', status = 401, res_headers = [], res_config = req7 \<rparr>"] ko
  have third: "fst (client_request prod_client toy env_401_html prod_world req7) = Inl error_401_html
    \<and> location_assign (snd (client_request prod_client toy env_401_html prod_world req7))
       = location_assign prod_world @ [''/enter-email'']"
    by (simp add: expected_redirects_def)
  have traced: "\<not> success (fst (perform prod_client toy env_200_html prod_world
                                  (Call_get ''/users'' no_options)))"
    by (simp add: model_defs example_defs)
  from first second third traced show ?thesis
    by simp
qed

text \<open>
  C7.  When the per-call configuration has no \<open>baseUrl\<close> (or an empty one) and the global
  configuration has no \<open>graphql.endpoint\<close> (or an empty one), \<open>graphql\<close> returns the failure
  envelope with the message \<open>GraphQL endpoint is not configured\<close> and leaves the world as it
  was: no request is handed to the transport, nothing is logged, no redirect is requested.
\<close>

theorem graphql_without_endpoint:
  assumes "rc_baseUrl cfg = None \<or> rc_baseUrl cfg = Some []"
    and "rd (graphql (globalConfig w)) = None
         \<or> (\<exists>g. rd (graphql (globalConfig w)) = Some g \<and> (endpoint g = None \<or> endpoint g = Some []))"
  shows "WebLattice_graphql this px env w q v cfg
         = (\<lparr> success = False, data = None, error = Some ''GraphQL endpoint is not configured'',
              statusCode = Some 500, errorCode = Some ''ERR_UNKNOWN'', api_headers = None \<rparr>, w)"
  using assms
  by (auto simp: WebLattice_graphql_def graphql_endpoint_def catch_envelope_Error)

theorem graphql_without_endpoint_witness:
  "WebLattice_graphql dev_client toy env_200 dev_world ''{ me { id } }'' JUndefined no_options
   = (\<lparr> success = False, data = None, error = Some ''GraphQL endpoint is not configured'',
        statusCode = Some 500, errorCode = Some ''ERR_UNKNOWN'', api_headers = None \<rparr>, dev_world)
   \<and> sent dev_world = []"
proof -
  have a: "rc_baseUrl no_options = None \<or> rc_baseUrl no_options = Some []"
    by (simp add: no_options_def)
  have b: "rd (graphql (globalConfig dev_world)) = None
           \<or> (\<exists>g. rd (graphql (globalConfig dev_world)) = Some g
                  \<and> (endpoint g = None \<or> endpoint g = Some []))"
    by (simp add: model_defs example_defs)
  have c: "sent dev_world = []"
    by (simp add: model_defs example_defs)
  from graphql_without_endpoint [OF a b] c show ?thesis
    by simp
qed

text \<open>
  C8.  After \<open>setNetworkConfig(U)\<close> on the configuration \<open>C\<close>, every top-level key that \<open>U\<close>
  has holds exactly \<open>U\<close>'s entry (a sub-object is replaced whole, never merged field by
  field), and every key that \<open>U\<close> lacks holds \<open>C\<close>'s entry.
\<close>

theorem setNetworkConfig_shallow_merge:
  "entry (setNetworkConfig U C) k = (if entry U k = Absent then entry C k else entry U k)"
  by (cases k)
     (simp_all add: setNetworkConfig_def split: slot.splits)

theorem setNetworkConfig_shallow_merge_witness:
  "entry (setNetworkConfig only_encryption prod_keyed_config) K_encryption
     = Value (V_encryption \<lparr> enabled = True, secretKey = None, useRemoteKeys = None \<rparr>)
   \<and> entry (setNetworkConfig only_encryption prod_keyed_config) K_environment
     = Value (V_environment Env_PROD)"
  using setNetworkConfig_shallow_merge [of only_encryption prod_keyed_config K_encryption]
    setNetworkConfig_shallow_merge [of only_encryption prod_keyed_config K_environment]
  by (simp add: only_encryption_def prod_keyed_config_def)

lemma gql_reduce_truthy:
  assumes "\<forall>v \<in> set (drop i vs). truthy v"
  shows "gql_reduce vs acc i ss = acc @ gql_spec ss (drop i vs)"
  using assms
proof (induction ss arbitrary: acc i)
  case Nil
  then show ?case by simp
next
  case (Cons s ss)
  have "set (drop (Suc i) vs) \<subseteq> set (drop i vs)"
    by (rule set_drop_subset_set_drop) simp
  with Cons.prems have rest: "\<forall>v \<in> set (drop (Suc i) vs). truthy v"
    by blast
  show ?case
  proof (cases "i < length vs")
    case True
    then have d: "drop i vs = vs ! i # drop (Suc i) vs"
      by (simp add: Cons_nth_drop_Suc)
    with Cons.prems have "truthy (vs ! i)"
      by simp
    with True d Cons.IH [OF rest] show ?thesis
      by (simp add: at_index_def or_empty_def)
  next
    case False
    with Cons.IH [OF rest] show ?thesis
      by (simp add: at_index_def or_empty_def)
  qed
qed

lemma gql_matches_spec_on_truthy:
  "\<forall>v \<in> set vs. truthy v \<Longrightarrow> gql strings vs = gql_spec strings vs"
  using gql_reduce_truthy [of 0 vs "[]" strings] by (simp add: gql_def)

text \<open>
  C9.  The claim does not hold of the code: an interpolated value that is falsy (0, false,
  null, the empty string) is replaced by the empty string.  For the template
  \<open>gql`limit: ${0}`\<close> the code returns \<open>limit: \<close> where concatenating the fragments with
  the values gives \<open>limit: 0\<close>.
\<close>

theorem gql_drops_falsy_value:
  "gql [''limit: '', ''''] [JNum 0] = ''limit: ''
   \<and> gql_spec [''limit: '', ''''] [JNum 0] = ''limit: 0''"
  by (simp add: gql_def at_index_def or_empty_def decimal_int_def decimal.simps digit_char_def)

text \<open>
  C10.  Constructing a client with configuration \<open>C\<close> replaces the global configuration by
  the shallow merge of \<open>C\<close> into it: every top-level key \<open>C\<close> has takes \<open>C\<close>'s entry, every
  other key keeps its entry.  So after a client \<open>a\<close> with configuration \<open>cA\<close> and then a
  client \<open>b\<close> with configuration \<open>cB\<close> were constructed, the helpers read what \<open>b\<close> wrote.
  Where \<open>cB\<close> enables encryption with the key \<open>K\<close>, \<open>encryptData\<close> encrypts and
  \<open>decryptData\<close> decrypts under \<open>K\<close>, also the body of a request made through \<open>a\<close>; where
  \<open>cB\<close> has encryption off, both pass their argument through; where \<open>cB\<close> has the
  \<open>metrics\<close> key, \<open>recordMetrics\<close> writes exactly when \<open>cB\<close> enables metrics with
  \<open>logToConsole\<close>.  The client \<open>a\<close> keeps \<open>cA\<close> for itself.
\<close>

theorem constructor_overwrites_globalConfig:
  assumes A: "new_WebLattice cA w0 = (a, w1)" and B: "new_WebLattice cB w1 = (b, w2)"
  shows "entry (globalConfig w1) k
           = (if entry cA k = Absent then entry (globalConfig w0) k else entry cA k)
       \<and> entry (globalConfig w2) k
           = (if entry cB k = Absent then entry (globalConfig w1) k else entry cB k)
       \<and> this_config a = cA
       \<and> (encryption cB = Value eB \<and> enabled eB \<and> secretKey eB = Some K \<and> K \<noteq> [] \<longrightarrow>
            encryptData px (globalConfig w2) P = AES_encrypt px (JSON_stringify px P) K
            \<and> decryptData px (globalConfig w2) ct = AES_decrypt px ct K
            \<and> (isProd cA \<and> sessionStorage_getItem env = Inr tok
                  \<and> truthy (req_data c) \<and> typeof_object (req_data c) \<longrightarrow>
                map_sum id req_data (fst (request_interceptor a px env w2 c))
                = Inr (JStr (AES_encrypt px (JSON_stringify px (req_data c)) K))))
       \<and> (encryption cB = Value eB
              \<and> (\<not> enabled eB \<or> secretKey eB = None \<or> secretKey eB = Some []) \<longrightarrow>
            encryptData px (globalConfig w2) P = JSON_stringify px P
            \<and> decryptData px (globalConfig w2) ct = Inr ct)
       \<and> (metrics cB = Value mB \<longrightarrow>
            metrics_emitted (recordMetrics env d w2)
            = metrics_emitted w2
              + (if metrics_enabled mB \<and> logToConsole mB = Some True then 1 else 0))"
proof -
  from A have a: "this_config a = cA" and g1: "globalConfig w1 = setNetworkConfig cA (globalConfig w0)"
    by (auto simp: new_WebLattice_def)
  from B have g2: "globalConfig w2 = setNetworkConfig cB (globalConfig w1)"
    by (auto simp: new_WebLattice_def)
  have m1: "entry (globalConfig w1) k
            = (if entry cA k = Absent then entry (globalConfig w0) k else entry cA k)"
    unfolding g1 by (cases k) (simp_all add: setNetworkConfig_def split: slot.splits)
  have m2: "entry (globalConfig w2) k
            = (if entry cB k = Absent then entry (globalConfig w1) k else entry cB k)"
    unfolding g2 by (cases k) (simp_all add: setNetworkConfig_def split: slot.splits)
  have enc: "rd (encryption (globalConfig w2)) = Some eB" if "encryption cB = Value eB"
    using that by (simp add: g2 setNetworkConfig_def)
  have met: "rd (metrics (globalConfig w2)) = Some mB" if "metrics cB = Value mB"
    using that by (simp add: g2 setNetworkConfig_def)
  have on1: "encryptData px (globalConfig w2) Q = AES_encrypt px (JSON_stringify px Q) K"
    if "encryption cB = Value eB" "enabled eB" "secretKey eB = Some K" "K \<noteq> []" for Q
    using enc [OF that(1)] that
    by (simp add: encryptData_def encryption_off_def configured_key_def)
  have on2: "decryptData px (globalConfig w2) ct = AES_decrypt px ct K"
    if "encryption cB = Value eB" "enabled eB" "secretKey eB = Some K" "K \<noteq> []"
    using enc [OF that(1)] that
    by (simp add: decryptData_def encryption_off_def configured_key_def)
  have on3: "map_sum id req_data (fst (request_interceptor a px env w2 c))
            = Inr (JStr (AES_encrypt px (JSON_stringify px (req_data c)) K))"
    if "encryption cB = Value eB" "enabled eB" "secretKey eB = Some K" "K \<noteq> []"
      "isProd cA" "sessionStorage_getItem env = Inr tok"
      "truthy (req_data c)" "typeof_object (req_data c)"
  proof -
    from request_interceptor_ok [OF that(6), of a px w2 c] obtain c1 w3 where
      ri: "request_interceptor a px env w2 c = (Inr c1, w3)"
      by blast
    from request_interceptor_data [OF ri] that a on1 [OF that(1-4)] show ?thesis
      by (simp add: ri)
  qed
  have off: "encryptData px (globalConfig w2) P = JSON_stringify px P
             \<and> decryptData px (globalConfig w2) ct = Inr ct"
    if "encryption cB = Value eB" "\<not> enabled eB \<or> secretKey eB = None \<or> secretKey eB = Some []"
    using enc [OF that(1)] that(2)
    by (auto simp: encryptData_def decryptData_def encryption_off_def)
  have m: "metrics_emitted (recordMetrics env d w2)
           = metrics_emitted w2 + (if metrics_enabled mB \<and> logToConsole mB = Some True then 1 else 0)"
    if "metrics cB = Value mB"
    using met [OF that] by (simp add: metrics_on_def)
  from a m1 m2 on1 on2 on3 off m show ?thesis
    by blast
qed

theorem constructor_overwrites_globalConfig_witness:
  "this_config (fst (new_WebLattice prod_other_key_config w_init)) = prod_other_key_config
   \<and> encryptData toy prod_other_key_config JNull = ''kanull''
   \<and> encryptData toy
        (globalConfig (snd (new_WebLattice prod_keyed_config
                              (snd (new_WebLattice prod_other_key_config w_init)))))
        JNull = ''knull''
   \<and> decryptData toy
        (globalConfig (snd (new_WebLattice prod_keyed_config
                              (snd (new_WebLattice prod_other_key_config w_init)))))
        ''knull'' = Inr ''null''
   \<and> entry (globalConfig (snd (new_WebLattice only_encryption
                                  (snd (new_WebLattice prod_other_key_config w_init)))))
        K_baseUrl = Value (V_string ''https://a.example.com'')"
proof -
  have B: "encryption prod_keyed_config
           = Value \<lparr> enabled = True, secretKey = Some ''k'', useRemoteKeys = Some False \<rparr>"
    by (simp add: prod_keyed_config_def)
  have toy: "AES_encrypt toy (JSON_stringify toy JNull) ''k'' = ''knull''"
    "AES_decrypt toy ''knull'' ''k'' = Inr ''null''"
    "encryptData toy prod_other_key_config JNull = ''kanull''"
    by (simp_all add: model_defs example_defs)
  note inst = constructor_overwrites_globalConfig [OF run_pair run_pair,
      where cA = prod_other_key_config and ?w0.0 = w_init and cB = prod_keyed_config and px = toy
        and P = JNull and ct = "''knull''" and K = "''k''"
        and eB = "\<lparr> enabled = True, secretKey = Some ''k'', useRemoteKeys = Some False \<rparr>"]
  from inst have mine: "this_config (fst (new_WebLattice prod_other_key_config w_init))
                        = prod_other_key_config"
    by blast
  from inst B have "encryptData toy
        (globalConfig (snd (new_WebLattice prod_keyed_config
                              (snd (new_WebLattice prod_other_key_config w_init)))))
        JNull = AES_encrypt toy (JSON_stringify toy JNull) ''k''
    \<and> decryptData toy
        (globalConfig (snd (new_WebLattice prod_keyed_config
                              (snd (new_WebLattice prod_other_key_config w_init)))))
        ''knull'' = AES_decrypt toy ''knull'' ''k''"
    by simp
  moreover
  from constructor_overwrites_globalConfig [OF run_pair run_pair,
      where cA = prod_other_key_config and ?w0.0 = w_init and cB = only_encryption
        and k = K_baseUrl]
  have "entry (globalConfig (snd (new_WebLattice only_encryption
                                  (snd (new_WebLattice prod_other_key_config w_init)))))
        K_baseUrl
        = entry (globalConfig (snd (new_WebLattice prod_other_key_config w_init))) K_baseUrl"
    by (simp add: only_encryption_def)
  moreover have "entry (globalConfig (snd (new_WebLattice prod_other_key_config w_init))) K_baseUrl
        = Value (V_string ''https://a.example.com'')"
    by (simp add: model_defs example_defs)
  ultimately show ?thesis
    using mine toy by simp
qed

end
